theory Spec2Isabelle
  imports Complex_Main "HOL-Library.Char_ord" "HOL-Library.AList" "HOL-Library.Monad_Syntax"
begin

section \<open>Course data\<close>

text \<open>
  The course types of the editor. A JavaScript string is modelled as a \<open>string\<close>; its
  elements stand for code units below 256. Optional properties (\<open>mascotName?\<close>,
  \<open>url?\<close>, \<open>file?\<close>, ...) are options.
\<close>

datatype image_format = PNG | JPEG | OtherFormat

record image =
  img_format :: image_format
  img_width :: nat
  img_height :: nat

text \<open>
  A \<open>Blob\<close> (a \<open>File\<close> is one): its \<open>type\<close> label, what an \<open>Image\<close> element makes of
  its content (\<open>None\<close>: the element fires \<open>onerror\<close>), and the content itself.
\<close>

record blob =
  blob_type :: string
  blob_image :: "image option"
  blob_data :: "nat list"

record quiz_option =
  opt_id :: string
  opt_text :: string

record quiz_question =
  q_id :: string
  q_question :: string
  q_options :: "quiz_option list"
  q_correctOptionId :: string
  q_explanation :: string

record card =
  card_id :: string
  card_front :: string
  card_back :: string

record timeline_event =
  ev_id :: string
  ev_title :: string
  ev_date :: string
  ev_description :: string
  ev_imagePath :: "string option"

record experiment_step =
  step_id :: string
  step_title :: string
  step_description :: string
  step_imagePath :: "string option"

datatype video_source = SourceUrl | SourceUpload

text \<open>The union \<open>Module\<close>: the constructor of the payload is the \<open>type\<close> discriminant.\<close>

datatype module_payload =
    TextModule string
  | VideoModule video_source "string option" "string option"
  | QuizModule "quiz_question list"
  | CardsModule "card list"
  | TimelineModule "timeline_event list"
  | ExperimentModule "experiment_step list"

record module =
  mod_id :: string
  mod_title :: string
  mod_payload :: module_payload

record theme =
  primaryColor :: string
  font :: string

record course_settings =
  courseName :: string
  mascotName :: "string option"
  school :: string
  authors :: string
  date :: string
  description :: string
  theme :: theme
  language :: string
  mascotEnabled :: bool
  showScore :: bool

datatype media_kind = ImageMedia | VideoMedia | AudioMedia

record media_file =
  media_id :: string
  media_name :: string
  media_path :: string
  media_type :: media_kind
  media_blobUrl :: string
  media_file :: "blob option"

record mascot_pose =
  pose_type :: string
  pose_path :: string
  pose_blobUrl :: string
  pose_file :: "blob option"

record course =
  course_id :: string
  settings :: course_settings
  modules :: "module list"
  media :: "media_file list"
  mascot :: "mascot_pose list"

section \<open>JavaScript values and JSON\<close>

text \<open>
  The values \<open>JSON.parse\<close> builds, and what the unpacker turns them into. An object is
  the list of its own properties in enumeration order. An array carries its elements
  and its named (non-index) properties; the latter are empty in every array that
  \<open>JSON.parse\<close> builds. No number occurs in a course, and nothing here computes with one.
\<close>

datatype jsval =
    JNull
  | JBool bool
  | JNum real
  | JStr string
  | JArr "jsval list" "(string \<times> jsval) list"
  | JObj "(string \<times> jsval) list"

text \<open>
  Reading a property whose name is neither an index nor built in (\<open>media\<close>, \<open>mascot\<close>,
  \<open>path\<close>, ...): \<open>None\<close> is \<open>undefined\<close>. Reading a property of \<open>null\<close> throws.
\<close>

datatype error = ManifestMissing | SyntaxError | TypeError

fun get_prop :: "jsval \<Rightarrow> string \<Rightarrow> error + jsval option" where
  "get_prop JNull k = Inl TypeError"
| "get_prop (JObj ps) k = Inr (map_of ps k)"
| "get_prop (JArr xs ps) k = Inr (map_of ps k)"
| "get_prop v k = Inr None"

text \<open>
  Assigning a property: an object or an array takes it (in place when it has the
  property, at the end otherwise); on a primitive the assignment throws, the code being
  a module and so strict.
\<close>

fun set_prop :: "jsval \<Rightarrow> string \<Rightarrow> jsval \<Rightarrow> error + jsval" where
  "set_prop (JObj ps) k v = Inr (JObj (AList.update k v ps))"
| "set_prop (JArr xs ps) k v = Inr (JArr xs (AList.update k v ps))"
| "set_prop u k v = Inl TypeError"

text \<open>
  An object about to be serialised: a property holds JSON data or a \<open>File\<close>.
  \<open>JSON.stringify\<close> writes a \<open>File\<close> as \<open>{}\<close> and leaves out a property that is
  \<open>undefined\<close>; the text it writes is kept as the value \<open>JSON.parse\<close> reads from it.
\<close>

datatype prop_value = Plain jsval | Handle blob

fun stringify_field :: "string \<times> prop_value \<Rightarrow> string \<times> jsval" where
  "stringify_field (k, Plain v) = (k, v)"
| "stringify_field (k, Handle f) = (k, JObj [])"

definition stringify_fields :: "(string \<times> prop_value) list \<Rightarrow> jsval" where
  "stringify_fields fs = JObj (map stringify_field fs)"

definition optional :: "string \<Rightarrow> string option \<Rightarrow> (string \<times> jsval) list" where
  "optional k v = (case v of None \<Rightarrow> [] | Some s \<Rightarrow> [(k, JStr s)])"

definition array :: "jsval list \<Rightarrow> jsval" where
  "array xs = JArr xs []"

definition quiz_option_json :: "quiz_option \<Rightarrow> jsval" where
  "quiz_option_json p = JObj [(''id'', JStr (opt_id p)), (''text'', JStr (opt_text p))]"

definition quiz_question_json :: "quiz_question \<Rightarrow> jsval" where
  "quiz_question_json q = JObj
     [(''id'', JStr (q_id q)), (''question'', JStr (q_question q)),
      (''options'', array (map quiz_option_json (q_options q))),
      (''correctOptionId'', JStr (q_correctOptionId q)),
      (''explanation'', JStr (q_explanation q))]"

definition card_json :: "card \<Rightarrow> jsval" where
  "card_json c = JObj
     [(''id'', JStr (card_id c)), (''front'', JStr (card_front c)),
      (''back'', JStr (card_back c))]"

definition timeline_event_json :: "timeline_event \<Rightarrow> jsval" where
  "timeline_event_json e = JObj
     ([(''id'', JStr (ev_id e)), (''title'', JStr (ev_title e)), (''date'', JStr (ev_date e)),
       (''description'', JStr (ev_description e))] @ optional ''imagePath'' (ev_imagePath e))"

definition experiment_step_json :: "experiment_step \<Rightarrow> jsval" where
  "experiment_step_json s = JObj
     ([(''id'', JStr (step_id s)), (''title'', JStr (step_title s)),
       (''description'', JStr (step_description s))] @ optional ''imagePath'' (step_imagePath s))"

fun payload_json :: "module_payload \<Rightarrow> (string \<times> jsval) list" where
  "payload_json (TextModule html) = [(''type'', JStr ''text''), (''content'', JStr html)]"
| "payload_json (VideoModule src url filePath) =
     [(''type'', JStr ''video''),
      (''source'', JStr (case src of SourceUrl \<Rightarrow> ''url'' | SourceUpload \<Rightarrow> ''upload''))]
     @ optional ''url'' url @ optional ''filePath'' filePath"
| "payload_json (QuizModule qs) =
     [(''type'', JStr ''quiz''), (''questions'', array (map quiz_question_json qs))]"
| "payload_json (CardsModule cs) =
     [(''type'', JStr ''cards''), (''cards'', array (map card_json cs))]"
| "payload_json (TimelineModule es) =
     [(''type'', JStr ''timeline''), (''events'', array (map timeline_event_json es))]"
| "payload_json (ExperimentModule ss) =
     [(''type'', JStr ''experiment''), (''steps'', array (map experiment_step_json ss))]"

definition module_json :: "module \<Rightarrow> jsval" where
  "module_json m = JObj
     ([(''id'', JStr (mod_id m)), (''title'', JStr (mod_title m))] @ payload_json (mod_payload m))"

definition settings_json :: "course_settings \<Rightarrow> jsval" where
  "settings_json s = JObj
     ([(''courseName'', JStr (courseName s))] @ optional ''mascotName'' (mascotName s) @
      [(''school'', JStr (school s)), (''authors'', JStr (authors s)), (''date'', JStr (date s)),
       (''description'', JStr (description s)),
       (''theme'', JObj [(''primaryColor'', JStr (primaryColor (theme s))),
                         (''font'', JStr (font (theme s)))]),
       (''language'', JStr (language s)), (''mascotEnabled'', JBool (mascotEnabled s)),
       (''showScore'', JBool (showScore s))])"

definition media_kind_json :: "media_kind \<Rightarrow> jsval" where
  "media_kind_json k =
     JStr (case k of ImageMedia \<Rightarrow> ''image'' | VideoMedia \<Rightarrow> ''video'' | AudioMedia \<Rightarrow> ''audio'')"

text \<open>The own properties of a \<open>MediaFile\<close> and of a \<open>MascotPose\<close> object.\<close>

definition media_fields :: "media_file \<Rightarrow> (string \<times> prop_value) list" where
  "media_fields m =
     [(''id'', Plain (JStr (media_id m))), (''name'', Plain (JStr (media_name m))),
      (''path'', Plain (JStr (media_path m))), (''type'', Plain (media_kind_json (media_type m))),
      (''blobUrl'', Plain (JStr (media_blobUrl m)))]
     @ (case media_file m of None \<Rightarrow> [] | Some f \<Rightarrow> [(''file'', Handle f)])"

definition pose_fields :: "mascot_pose \<Rightarrow> (string \<times> prop_value) list" where
  "pose_fields p =
     [(''type'', Plain (JStr (pose_type p))), (''path'', Plain (JStr (pose_path p))),
      (''blobUrl'', Plain (JStr (pose_blobUrl p)))]
     @ (case pose_file p of None \<Rightarrow> [] | Some f \<Rightarrow> [(''file'', Handle f)])"

section \<open>The archive library and the browser\<close>

text \<open>
  The archive is the table of file entries that JSZip keeps, from entry name to content:
  \<open>zip.file(name, data)\<close> stores, \<open>zip.file(name)\<close> looks up. An entry is a string, kept as
  what \<open>JSON.parse\<close> makes of it (\<open>None\<close>: it throws), or binary content.
\<close>

datatype entry = Text "jsval option" | Binary blob

type_synonym zip = "string \<rightharpoonup> entry"

text \<open>
  What the code asks of the browser and of the archive library, as parameters:
  \<^item> \<open>fetch_blob url\<close>: \<open>fetch(url)\<close> followed by \<open>response.blob()\<close>; \<open>None\<close> when either throws;
  \<^item> \<open>context_2d\<close>: whether \<open>canvas.getContext('2d')\<close> gives a context;
  \<^item> \<open>png_encode src\<close>: the bytes \<open>canvas.toBlob\<close> hands over for the canvas on which \<open>src\<close>
    was drawn; \<open>None\<close> when it hands over \<open>null\<close>;
  \<^item> \<open>object_url i\<close>: the handle \<open>URL.createObjectURL\<close> mints in the call made for the
    \<open>i\<close>-th asset record (media records first, then mascot poses); the calls are made in
    completion order, so nothing is fixed about which handle goes to which record;
  \<^item> \<open>blob_json b\<close>: \<open>JSON.parse\<close> of the content of \<open>b\<close> read as text; \<open>None\<close> when it throws;
  \<^item> \<open>coerce_name v\<close>: the string that \<open>'' + v\<close> gives for a \<open>v\<close> that is not a string;
    \<open>None\<close> when the conversion throws;
  \<^item> \<open>load_generated z\<close>: the table that \<open>JSZip.loadAsync\<close> builds from the archive that
    \<open>zip.generateAsync\<close> writes for the table \<open>z\<close>; \<open>None\<close> when \<open>loadAsync\<close> rejects. The
    library need not file an entry under the name it was stored under: it reads a name that
    ends in \<open>/\<close> as a folder, and it may resolve \<open>./\<close>, \<open>//\<close> and \<open>..\<close> in a name, so
    that two entries can come back as one. Nothing is assumed of it here; a statement
    about packing and then unpacking says what it needs.
\<close>

record runtime =
  fetch_blob :: "string \<Rightarrow> blob option"
  context_2d :: bool
  png_encode :: "blob \<Rightarrow> nat list option"
  object_url :: "nat \<Rightarrow> string"
  blob_json :: "blob \<Rightarrow> jsval option"
  coerce_name :: "jsval option \<Rightarrow> string option"
  load_generated :: "zip \<Rightarrow> zip option"

definition zip_add :: "string \<Rightarrow> entry \<Rightarrow> zip \<Rightarrow> zip" where
  "zip_add name data z = z(name \<mapsto> data)"

definition zip_file :: "zip \<Rightarrow> string \<Rightarrow> entry option" where
  "zip_file z name = z name"

definition read_json :: "runtime \<Rightarrow> entry \<Rightarrow> jsval option" where
  "read_json rt e = (case e of Text t \<Rightarrow> t | Binary b \<Rightarrow> blob_json rt b)"

definition entry_name :: "runtime \<Rightarrow> jsval option \<Rightarrow> string option" where
  "entry_name rt v = (case v of Some (JStr s) \<Rightarrow> Some s | _ \<Rightarrow> coerce_name rt v)"

section \<open>Normalising a mascot image\<close>

datatype resize_error = CanvasContextMissing | CanvasConversionFailed | ImageLoadFailed

record canvas =
  canvas_width :: nat
  canvas_height :: nat

text \<open>\<open>canvas.toBlob(callback, 'image/png')\<close>: a PNG of the size of the canvas, or \<open>null\<close>.\<close>

definition toBlob :: "runtime \<Rightarrow> canvas \<Rightarrow> blob \<Rightarrow> blob option" where
  "toBlob rt cv src =
     (case png_encode rt src of
        None \<Rightarrow> None
      | Some bytes \<Rightarrow>
          Some \<lparr>blob_type = ''image/png'',
                blob_image = Some \<lparr>img_format = PNG, img_width = canvas_width cv,
                                   img_height = canvas_height cv\<rparr>,
                blob_data = bytes\<rparr>)"

definition resizeImageToSquare :: "runtime \<Rightarrow> blob \<Rightarrow> resize_error + blob" where
  "resizeImageToSquare rt blobOrFile =
     (case blob_image blobOrFile of
        None \<Rightarrow> Inl ImageLoadFailed
      | Some img \<Rightarrow>
          (let cv = \<lparr>canvas_width = 1500, canvas_height = 1500\<rparr> in
           if \<not> context_2d rt then Inl CanvasContextMissing
           else (case toBlob rt cv blobOrFile of
                   Some b \<Rightarrow> Inr b
                 | None \<Rightarrow> Inl CanvasConversionFailed)))"

section \<open>Packing\<close>

text \<open>
  \<open>trim\<close> removes white space and line terminators at both ends; below 256 these are the
  code units 9 to 13, 32 and 160. The class \<open>[a-zA-Z0-9]\<close> is \<open>alnum\<close>.
\<close>

definition js_space :: "char \<Rightarrow> bool" where
  "js_space c = (of_char c \<in> {9::nat, 10, 11, 12, 13, 32, 160})"

definition trim :: "string \<Rightarrow> string" where
  "trim s = rev (dropWhile js_space (rev (dropWhile js_space s)))"

definition alnum :: "char \<Rightarrow> bool" where
  "alnum c = ((CHR ''a'' \<le> c \<and> c \<le> CHR ''z'') \<or> (CHR ''A'' \<le> c \<and> c \<le> CHR ''Z'')
              \<or> (CHR ''0'' \<le> c \<and> c \<le> CHR ''9''))"

text \<open>\<open>course.settings.mascotName?.trim().replace(/[^a-zA-Z0-9]/g, '_') || 'mascot'\<close>\<close>

definition mascot_slug :: "string option \<Rightarrow> string" where
  "mascot_slug name =
     (case name of
        None \<Rightarrow> ''mascot''
      | Some s \<Rightarrow>
          (let r = map (\<lambda>c. if alnum c then c else CHR ''_'') (trim s)
           in if r = [] then ''mascot'' else r))"

definition mascot_path :: "string \<Rightarrow> string \<Rightarrow> string" where
  "mascot_path slug poseType = ''mascot/'' @ slug @ ''_'' @ poseType @ ''.png''"

definition rename_pose :: "string \<Rightarrow> mascot_pose \<Rightarrow> mascot_pose" where
  "rename_pose slug pose = pose\<lparr>pose_path := mascot_path slug (pose_type pose)\<rparr>"

text \<open>The copy of the course that is packed: modules filtered, mascot poses renamed.\<close>

definition courseToSave :: "course \<Rightarrow> string list option \<Rightarrow> course" where
  "courseToSave c moduleIdsToInclude =
     c\<lparr>modules := (case moduleIdsToInclude of
                      Some ids \<Rightarrow> filter (\<lambda>m. mod_id m \<in> set ids) (modules c)
                    | None \<Rightarrow> modules c),
       mascot := map (rename_pose (mascot_slug (mascotName (settings c)))) (mascot c)\<rparr>"

text \<open>\<open>({file, blobUrl, ...rest}) => rest\<close>\<close>

definition rest_fields :: "(string \<times> prop_value) list \<Rightarrow> (string \<times> prop_value) list" where
  "rest_fields fs = filter (\<lambda>(k, v). k \<noteq> ''file'' \<and> k \<noteq> ''blobUrl'') fs"

definition cleanMedia :: "course \<Rightarrow> jsval list" where
  "cleanMedia cts = map (\<lambda>m. stringify_fields (rest_fields (media_fields m))) (media cts)"

definition cleanMascot :: "course \<Rightarrow> jsval list" where
  "cleanMascot cts = map (\<lambda>p. stringify_fields (rest_fields (pose_fields p))) (mascot cts)"

text \<open>What \<open>JSON.stringify(cleanCourse, null, 2)\<close> writes.\<close>

definition cleanCourse :: "course \<Rightarrow> jsval" where
  "cleanCourse cts = JObj
     [(''id'', JStr (course_id cts)), (''settings'', settings_json (settings cts)),
      (''modules'', array (map module_json (modules cts))),
      (''media'', array (cleanMedia cts)), (''mascot'', array (cleanMascot cts))]"

definition add_media_file :: "runtime \<Rightarrow> media_file \<Rightarrow> zip \<Rightarrow> zip" where
  "add_media_file rt item z =
     (case media_file item of
        Some f \<Rightarrow> zip_add (media_path item) (Binary f) z
      | None \<Rightarrow>
          (case fetch_blob rt (media_blobUrl item) of
             Some b \<Rightarrow> zip_add (media_path item) (Binary b) z
           | None \<Rightarrow> z))"

definition pose_content :: "runtime \<Rightarrow> mascot_pose \<Rightarrow> blob option" where
  "pose_content rt item =
     (case pose_file item of Some f \<Rightarrow> Some f | None \<Rightarrow> fetch_blob rt (pose_blobUrl item))"

definition add_mascot_file :: "runtime \<Rightarrow> mascot_pose \<Rightarrow> zip \<Rightarrow> zip" where
  "add_mascot_file rt item z =
     (case pose_content rt item of
        None \<Rightarrow> z
      | Some content \<Rightarrow>
          (case resizeImageToSquare rt content of
             Inr resizedBlob \<Rightarrow> zip_add (pose_path item) (Binary resizedBlob) z
           | Inl e \<Rightarrow> zip_add (pose_path item) (Binary content) z))"

text \<open>
  \<open>zipCourse\<close>, up to its last line: the table on which \<open>zip.generateAsync\<close> is called.
\<close>

definition zipCourse :: "runtime \<Rightarrow> course \<Rightarrow> string list option \<Rightarrow> zip" where
  "zipCourse rt c moduleIdsToInclude =
     (let cts = courseToSave c moduleIdsToInclude;
          z0 = zip_add ''curso.json'' (Text (Some (cleanCourse cts))) Map.empty;
          z1 = fold (add_media_file rt) (media cts) z0
      in fold (add_mascot_file rt) (mascot cts) z1)"

section \<open>Unpacking\<close>

text \<open>\<open>course.media.map(...)\<close>: the property has to be an array with the built-in \<open>map\<close>.\<close>

definition array_prop :: "jsval \<Rightarrow> string \<Rightarrow> error + jsval list" where
  "array_prop v k =
     (case get_prop v k of
        Inl e \<Rightarrow> Inl e
      | Inr (Some (JArr xs ps)) \<Rightarrow> (if map_of ps ''map'' = None then Inr xs else Inl TypeError)
      | Inr _ \<Rightarrow> Inl TypeError)"

text \<open>The body of both \<open>map\<close> callbacks, for the \<open>i\<close>-th asset record.\<close>

definition attach_handle :: "runtime \<Rightarrow> zip \<Rightarrow> nat \<Rightarrow> jsval \<Rightarrow> error + jsval" where
  "attach_handle rt z i item =
     (case get_prop item ''path'' of
        Inl e \<Rightarrow> Inl e
      | Inr path \<Rightarrow>
          (case entry_name rt path of
             None \<Rightarrow> Inl TypeError
           | Some name \<Rightarrow>
               (case zip_file z name of
                  None \<Rightarrow> Inr item
                | Some file \<Rightarrow> set_prop item ''blobUrl'' (JStr (object_url rt i)))))"

fun attach_all :: "runtime \<Rightarrow> zip \<Rightarrow> nat \<Rightarrow> jsval list \<Rightarrow> error + jsval list" where
  "attach_all rt z i [] = Inr []"
| "attach_all rt z i (item # items) =
     (case attach_handle rt z i item of
        Inl e \<Rightarrow> Inl e
      | Inr item' \<Rightarrow>
          (case attach_all rt z (Suc i) items of
             Inl e \<Rightarrow> Inl e
           | Inr items' \<Rightarrow> Inr (item' # items')))"

text \<open>\<open>unzipCourse\<close>, from the table that \<open>JSZip.loadAsync\<close> has built.\<close>

definition unzipCourse :: "runtime \<Rightarrow> zip \<Rightarrow> error + jsval" where
  "unzipCourse rt z =
     (case zip_file z ''curso.json'' of
        None \<Rightarrow> Inl ManifestMissing
      | Some courseFile \<Rightarrow>
          (case read_json rt courseFile of
             None \<Rightarrow> Inl SyntaxError
           | Some course \<Rightarrow>
               (case array_prop course ''media'' of
                  Inl e \<Rightarrow> Inl e
                | Inr mediaItems \<Rightarrow>
                    (case array_prop course ''mascot'' of
                       Inl e \<Rightarrow> Inl e
                     | Inr mascotItems \<Rightarrow>
                         (case attach_all rt z 0 mediaItems of
                            Inl e \<Rightarrow> Inl e
                          | Inr media' \<Rightarrow>
                              (case attach_all rt z (length mediaItems) mascotItems of
                                 Inl e \<Rightarrow> Inl e
                               | Inr mascot' \<Rightarrow>
                                   (case set_prop course ''media'' (array media') of
                                      Inl e \<Rightarrow> Inl e
                                    | Inr course' \<Rightarrow>
                                        set_prop course' ''mascot'' (array mascot'))))))))"

text \<open>
  Packing a course and unpacking the archive that was written: \<open>None\<close> when the library
  rejects the archive.
\<close>

definition pack_then_unpack ::
  "runtime \<Rightarrow> course \<Rightarrow> string list option \<Rightarrow> (error + jsval) option" where
  "pack_then_unpack rt c moduleIdsToInclude =
     (case load_generated rt (zipCourse rt c moduleIdsToInclude) of
        None \<Rightarrow> None
      | Some z \<Rightarrow> Some (unzipCourse rt z))"

section \<open>The mascot editor\<close>

text \<open>
  \<open>handleFileChange\<close> as the new editor state: \<open>file\<close> is the first selected file, if
  any, and \<open>blobUrl\<close> the handle minted for it.
\<close>

definition handleFileChange ::
  "blob option \<Rightarrow> string \<Rightarrow> string \<Rightarrow> course option \<Rightarrow> course option" where
  "handleFileChange file blobUrl poseType prev =
     (case file of
        None \<Rightarrow> prev
      | Some f \<Rightarrow>
          if blob_type f \<noteq> ''image/png'' then prev
          else (case prev of
                  None \<Rightarrow> None
                | Some p \<Rightarrow>
                    (let newMascotPose = \<lparr>pose_type = poseType,
                                          pose_path = ''mascot/'' @ poseType @ ''.png'',
                                          pose_blobUrl = blobUrl, pose_file = Some f\<rparr>;
                         existingMascot = filter (\<lambda>m. pose_type m \<noteq> poseType) (mascot p)
                     in Some (p\<lparr>mascot := existingMascot @ [newMascotPose]\<rparr>))))"

section \<open>What the two loops store\<close>

text \<open>
  Each loop of \<open>zipCourse\<close> stores, under the path of an item, the content it finds for
  the item, or nothing. \<open>media_content\<close> and \<open>pose_stored\<close> name that content, and
  \<open>store_step\<close> is the step both loops take.
\<close>

definition media_content :: "runtime \<Rightarrow> media_file \<Rightarrow> blob option" where
  "media_content rt item =
     (case media_file item of Some f \<Rightarrow> Some f | None \<Rightarrow> fetch_blob rt (media_blobUrl item))"

definition pose_stored :: "runtime \<Rightarrow> mascot_pose \<Rightarrow> blob option" where
  "pose_stored rt item =
     (case pose_content rt item of
        None \<Rightarrow> None
      | Some content \<Rightarrow>
          (case resizeImageToSquare rt content of Inr r \<Rightarrow> Some r | Inl e \<Rightarrow> Some content))"

definition store_step :: "('a \<Rightarrow> string) \<Rightarrow> ('a \<Rightarrow> blob option) \<Rightarrow> 'a \<Rightarrow> zip \<Rightarrow> zip" where
  "store_step k g x z = (case g x of None \<Rightarrow> z | Some b \<Rightarrow> z(k x \<mapsto> Binary b))"

section \<open>Asset records of a parsed document\<close>

text \<open>
  An asset record of a document is an object whose \<open>path\<close> is a string;
  \<open>record_path\<close> reads that path.
\<close>

definition record_path :: "jsval \<Rightarrow> string option" where
  "record_path v =
     (case v of
        JObj ps \<Rightarrow> (case map_of ps ''path'' of Some (JStr s) \<Rightarrow> Some s | _ \<Rightarrow> None)
      | _ \<Rightarrow> None)"

definition is_record :: "jsval \<Rightarrow> bool" where
  "is_record v = (record_path v \<noteq> None)"

text \<open>
  What the specification asks of unpacking, for the \<open>i\<close>-th asset record: a record whose
  path names an entry of the archive gets a new \<open>blobUrl\<close>, every other record is left
  as declared.
\<close>

definition spec_rehydrated :: "runtime \<Rightarrow> zip \<Rightarrow> nat \<Rightarrow> jsval \<Rightarrow> jsval" where
  "spec_rehydrated rt z i v =
     (case v of
        JObj ps \<Rightarrow>
          (case map_of ps ''path'' of
             Some (JStr s) \<Rightarrow>
               (if z s = None then v
                else JObj (AList.update ''blobUrl'' (JStr (object_url rt i)) ps))
           | _ \<Rightarrow> v)
      | _ \<Rightarrow> v)"

definition spec_rehydrated_list :: "runtime \<Rightarrow> zip \<Rightarrow> nat \<Rightarrow> jsval list \<Rightarrow> jsval list" where
  "spec_rehydrated_list rt z i xs = map (\<lambda>(j, v). spec_rehydrated rt z j v) (zip [i ..< i + length xs] xs)"

text \<open>A normalised mascot image: a PNG of 1500 by 1500.\<close>

definition is_png_1500 :: "blob \<Rightarrow> bool" where
  "is_png_1500 b =
     (case blob_image b of
        None \<Rightarrow> False
      | Some i \<Rightarrow> img_format i = PNG \<and> img_width i = 1500 \<and> img_height i = 1500)"

section \<open>Packing over a store of objects\<close>

text \<open>
  The part of \<open>zipCourse\<close> that builds and assigns objects (the copy of the course, the
  filtered module array, the renamed poses, the clean records and the clean course;
  everything after that only reads), once more over a store in which every object has
  an address. A spread \<open>{...x}\<close> and an array built by \<open>filter\<close> or \<open>map\<close> allocate;
  \<open>courseToSave.modules = ...\<close> and \<open>courseToSave.mascot = ...\<close> assign in place. A
  step that meets an object of the wrong kind gives \<open>None\<close>.
\<close>

type_synonym addr = nat

datatype obj =
    CourseObj string addr addr addr addr
  | SettingsObj course_settings
  | ModuleObj module
  | MediaObj media_file
  | PoseObj mascot_pose
  | RestObj "(string \<times> prop_value) list"
  | ArrayObj "addr list"

type_synonym store = "obj list"

definition deref :: "store \<Rightarrow> addr \<Rightarrow> obj option" where
  "deref h a = (if a < length h then Some (h ! a) else None)"

definition alloc :: "obj \<Rightarrow> store \<Rightarrow> addr \<times> store" where
  "alloc v h = (length h, h @ [v])"

definition course_at :: "store \<Rightarrow> addr \<Rightarrow> (string \<times> addr \<times> addr \<times> addr \<times> addr) option" where
  "course_at h a =
     (case deref h a of Some (CourseObj i s mo me ma) \<Rightarrow> Some (i, s, mo, me, ma) | _ \<Rightarrow> None)"

definition settings_at :: "store \<Rightarrow> addr \<Rightarrow> course_settings option" where
  "settings_at h a = (case deref h a of Some (SettingsObj s) \<Rightarrow> Some s | _ \<Rightarrow> None)"

definition array_at :: "store \<Rightarrow> addr \<Rightarrow> addr list option" where
  "array_at h a = (case deref h a of Some (ArrayObj xs) \<Rightarrow> Some xs | _ \<Rightarrow> None)"

definition module_at :: "store \<Rightarrow> addr \<Rightarrow> module option" where
  "module_at h a = (case deref h a of Some (ModuleObj m) \<Rightarrow> Some m | _ \<Rightarrow> None)"

definition set_modules :: "addr \<Rightarrow> addr \<Rightarrow> store \<Rightarrow> store option" where
  "set_modules a v h =
     (case deref h a of
        Some (CourseObj i s mo me ma) \<Rightarrow> Some (h[a := CourseObj i s v me ma])
      | _ \<Rightarrow> None)"

definition set_mascot :: "addr \<Rightarrow> addr \<Rightarrow> store \<Rightarrow> store option" where
  "set_mascot a v h =
     (case deref h a of
        Some (CourseObj i s mo me ma) \<Rightarrow> Some (h[a := CourseObj i s mo me v])
      | _ \<Rightarrow> None)"

fun filter_ids :: "store \<Rightarrow> string list \<Rightarrow> addr list \<Rightarrow> addr list option" where
  "filter_ids h ids [] = Some []"
| "filter_ids h ids (a # as) =
     do { m \<leftarrow> module_at h a;
          bs \<leftarrow> filter_ids h ids as;
          Some (if mod_id m \<in> set ids then a # bs else bs) }"

fun map_alloc :: "(obj \<Rightarrow> obj option) \<Rightarrow> addr list \<Rightarrow> store \<Rightarrow> (addr list \<times> store) option" where
  "map_alloc f [] h = Some ([], h)"
| "map_alloc f (a # as) h =
     do { v \<leftarrow> deref h a;
          v' \<leftarrow> f v;
          let (b, h) = alloc v' h;
          (bs, h) \<leftarrow> map_alloc f as h;
          Some (b # bs, h) }"

definition renamed :: "string \<Rightarrow> obj \<Rightarrow> obj option" where
  "renamed slug v = (case v of PoseObj p \<Rightarrow> Some (PoseObj (rename_pose slug p)) | _ \<Rightarrow> None)"

definition rest_of :: "obj \<Rightarrow> obj option" where
  "rest_of v =
     (case v of
        MediaObj m \<Rightarrow> Some (RestObj (rest_fields (media_fields m)))
      | PoseObj p \<Rightarrow> Some (RestObj (rest_fields (pose_fields p)))
      | _ \<Rightarrow> None)"

definition copy_and_filter :: "store \<Rightarrow> addr \<Rightarrow> string list option \<Rightarrow> (store \<times> addr) option" where
  "copy_and_filter h course moduleIdsToInclude =
     do { v \<leftarrow> deref h course;
          (i, s, mo, me, ma) \<leftarrow> course_at h course;
          let (cts, h) = alloc v h;
          (filtered, h) \<leftarrow>
            (case moduleIdsToInclude of
               None \<Rightarrow> Some (mo, h)
             | Some ids \<Rightarrow>
                 do { ms \<leftarrow> array_at h mo;
                      fs \<leftarrow> filter_ids h ids ms;
                      Some (alloc (ArrayObj fs) h) });
          h \<leftarrow> set_modules cts filtered h;
          Some (h, cts) }"

definition rename_mascots :: "store \<Rightarrow> addr \<Rightarrow> addr \<Rightarrow> store option" where
  "rename_mascots h course cts =
     do { (i, s, mo, me, ma) \<leftarrow> course_at h course;
          st \<leftarrow> settings_at h s;
          (i', s', mo', me', ma') \<leftarrow> course_at h cts;
          ps \<leftarrow> array_at h ma';
          (ps', h) \<leftarrow> map_alloc (renamed (mascot_slug (mascotName st))) ps h;
          let (poses, h) = alloc (ArrayObj ps') h;
          set_mascot cts poses h }"

definition clean_copy :: "store \<Rightarrow> addr \<Rightarrow> (store \<times> addr) option" where
  "clean_copy h cts =
     do { (i, s, mo, me, ma) \<leftarrow> course_at h cts;
          ms \<leftarrow> array_at h me;
          (cm, h) \<leftarrow> map_alloc rest_of ms h;
          let (cm_arr, h) = alloc (ArrayObj cm) h;
          ps \<leftarrow> array_at h ma;
          (cp, h) \<leftarrow> map_alloc rest_of ps h;
          let (cp_arr, h) = alloc (ArrayObj cp) h;
          let (clean, h) = alloc (CourseObj i s mo cm_arr cp_arr) h;
          Some (h, clean) }"

definition zipCourse_store :: "store \<Rightarrow> addr \<Rightarrow> string list option \<Rightarrow> (store \<times> addr \<times> addr) option" where
  "zipCourse_store h course moduleIdsToInclude =
     do { (h, cts) \<leftarrow> copy_and_filter h course moduleIdsToInclude;
          h \<leftarrow> rename_mascots h course cts;
          (h, clean) \<leftarrow> clean_copy h cts;
          Some (h, cts, clean) }"

section \<open>Observations and examples\<close>

text \<open>
  The asset paths of an unpacked course and of a course, and a small course with a
  browser in which one media asset cannot be fetched and one mascot file does not decode;
  its archive library reads every entry back under its name, but for a name that ends in
  \<open>/\<close>. Two variants of the course follow: one in which two media assets share a path,
  one in which a media asset has the path of the document.
\<close>

definition asset_paths :: "jsval \<Rightarrow> string option list" where
  "asset_paths v =
     (case (array_prop v ''media'', array_prop v ''mascot'') of
        (Inr ms, Inr qs) \<Rightarrow> map record_path (ms @ qs)
      | _ \<Rightarrow> [])"

definition course_paths :: "course \<Rightarrow> string list" where
  "course_paths c = map media_path (media c) @ map pose_path (mascot c)"

definition png_file :: blob where
  "png_file = \<lparr>blob_type = ''image/png'',
                blob_image = Some \<lparr>img_format = PNG, img_width = 800, img_height = 600\<rparr>,
                blob_data = [137, 80, 78, 71]\<rparr>"

definition broken_file :: blob where
  "broken_file = \<lparr>blob_type = ''image/png'', blob_image = None, blob_data = [60, 104, 116]\<rparr>"

definition ex_runtime :: runtime where
  "ex_runtime =
     \<lparr>fetch_blob = (\<lambda>url. if url = ''blob:live'' then Some png_file else None),
      context_2d = True,
      png_encode = (\<lambda>src. Some (0 # blob_data src)),
      object_url = (\<lambda>i. ''blob:'' @ replicate i (CHR ''x'')),
      blob_json = (\<lambda>b. None),
      coerce_name = (\<lambda>v. case v of None \<Rightarrow> Some ''undefined'' | Some JNull \<Rightarrow> Some ''null''
                           | Some u \<Rightarrow> Some ''[object Object]''),
      load_generated = (\<lambda>z. Some (\<lambda>name. if name \<noteq> [] \<and> last name = CHR ''/'' then None
                                         else z name))\<rparr>"

definition ex_settings :: course_settings where
  "ex_settings =
     \<lparr>courseName = ''Curso'', mascotName = Some ''Dino 2000!'', school = '''', authors = '''',
      date = ''2024-01-01'', description = '''',
      theme = \<lparr>primaryColor = ''#F58248'', font = ''Poppins''\<rparr>,
      language = ''pt-BR'', mascotEnabled = True, showScore = True\<rparr>"

definition ex_module :: "string \<Rightarrow> module" where
  "ex_module i = \<lparr>mod_id = i, mod_title = ''Aula'', mod_payload = TextModule ''<p>Texto</p>''\<rparr>"

definition ex_media :: "media_file list" where
  "ex_media =
     [\<lparr>media_id = ''a1'', media_name = ''foto'', media_path = ''media/foto.png'',
       media_type = ImageMedia, media_blobUrl = ''blob:live'', media_file = None\<rparr>,
      \<lparr>media_id = ''a2'', media_name = ''som'', media_path = ''media/som.mp3'',
       media_type = AudioMedia, media_blobUrl = ''blob:gone'', media_file = None\<rparr>]"

definition ex_mascot :: "mascot_pose list" where
  "ex_mascot =
     [\<lparr>pose_type = ''happy'', pose_path = ''mascot/happy.png'', pose_blobUrl = ''blob:p1'',
       pose_file = Some png_file\<rparr>,
      \<lparr>pose_type = ''sad'', pose_path = ''mascot/sad.png'', pose_blobUrl = ''blob:p2'',
       pose_file = Some broken_file\<rparr>]"

definition ex_course :: course where
  "ex_course =
     \<lparr>course_id = ''course_1'', settings = ex_settings,
      modules = [ex_module ''m1'', ex_module ''m2'', ex_module ''m3''],
      media = ex_media, mascot = ex_mascot\<rparr>"

definition ex_shared_course :: course where
  "ex_shared_course =
     ex_course\<lparr>media :=
       [\<lparr>media_id = ''a1'', media_name = ''foto'', media_path = ''media/foto.png'',
         media_type = ImageMedia, media_blobUrl = ''blob:live'', media_file = None\<rparr>,
        \<lparr>media_id = ''a2'', media_name = ''copia'', media_path = ''media/foto.png'',
         media_type = ImageMedia, media_blobUrl = ''blob:gone'', media_file = None\<rparr>]\<rparr>"

definition ex_clash_course :: course where
  "ex_clash_course =
     ex_course\<lparr>media :=
       [\<lparr>media_id = ''a3'', media_name = ''dados'', media_path = ''curso.json'',
         media_type = ImageMedia, media_blobUrl = ''blob:live'', media_file = None\<rparr>]\<rparr>"

definition media_handles :: "jsval \<Rightarrow> (error + jsval option) list" where
  "media_handles v =
     (case array_prop v ''media'' of
        Inr ms \<Rightarrow> map (\<lambda>r. get_prop r ''blobUrl'') ms
      | Inl e \<Rightarrow> [])"

section \<open>Reading the store\<close>

text \<open>
  The course that an address of the store denotes, and the document that
  \<open>JSON.stringify\<close> writes for a clean course in the store.
\<close>

definition as_module :: "obj \<Rightarrow> module option" where
  "as_module v = (case v of ModuleObj m \<Rightarrow> Some m | _ \<Rightarrow> None)"

definition as_media :: "obj \<Rightarrow> media_file option" where
  "as_media v = (case v of MediaObj m \<Rightarrow> Some m | _ \<Rightarrow> None)"

definition as_pose :: "obj \<Rightarrow> mascot_pose option" where
  "as_pose v = (case v of PoseObj p \<Rightarrow> Some p | _ \<Rightarrow> None)"

definition as_rest :: "obj \<Rightarrow> (string \<times> prop_value) list option" where
  "as_rest v = (case v of RestObj fs \<Rightarrow> Some fs | _ \<Rightarrow> None)"

fun all_at :: "(obj \<Rightarrow> 'a option) \<Rightarrow> store \<Rightarrow> addr list \<Rightarrow> 'a list option" where
  "all_at p h [] = Some []"
| "all_at p h (a # as) =
     do { v \<leftarrow> deref h a; x \<leftarrow> p v; xs \<leftarrow> all_at p h as; Some (x # xs) }"

definition course_of :: "store \<Rightarrow> addr \<Rightarrow> course option" where
  "course_of h a =
     do { (i, s, mo, me, ma) \<leftarrow> course_at h a;
          st \<leftarrow> settings_at h s;
          ms \<leftarrow> array_at h mo;
          mods \<leftarrow> all_at as_module h ms;
          es \<leftarrow> array_at h me;
          meds \<leftarrow> all_at as_media h es;
          ps \<leftarrow> array_at h ma;
          poses \<leftarrow> all_at as_pose h ps;
          Some \<lparr>course_id = i, settings = st, modules = mods, media = meds, mascot = poses\<rparr> }"

definition document_of :: "store \<Rightarrow> addr \<Rightarrow> jsval option" where
  "document_of h a =
     do { (i, s, mo, me, ma) \<leftarrow> course_at h a;
          st \<leftarrow> settings_at h s;
          ms \<leftarrow> array_at h mo;
          mods \<leftarrow> all_at as_module h ms;
          es \<leftarrow> array_at h me;
          rm \<leftarrow> all_at as_rest h es;
          ps \<leftarrow> array_at h ma;
          rp \<leftarrow> all_at as_rest h ps;
          Some (JObj [(''id'', JStr i), (''settings'', settings_json st),
                      (''modules'', array (map module_json mods)),
                      (''media'', array (map stringify_fields rm)),
                      (''mascot'', array (map stringify_fields rp))]) }"

text \<open>\<open>same_off c h h'\<close>: the store \<open>h'\<close> extends \<open>h\<close> and differs from it at most at \<open>c\<close>.\<close>

definition same_off :: "addr \<Rightarrow> store \<Rightarrow> store \<Rightarrow> bool" where
  "same_off c h h' = (length h \<le> length h' \<and> (\<forall>x<length h. x \<noteq> c \<longrightarrow> h' ! x = h ! x))"

definition ex_store :: store where
  "ex_store =
     [CourseObj ''course_1'' 1 2 3 4, SettingsObj ex_settings,
      ArrayObj [5, 6, 7], ArrayObj [8, 9], ArrayObj [10, 11],
      ModuleObj (ex_module ''m1''), ModuleObj (ex_module ''m2''), ModuleObj (ex_module ''m3''),
      MediaObj (ex_media ! 0), MediaObj (ex_media ! 1),
      PoseObj (ex_mascot ! 0), PoseObj (ex_mascot ! 1)]"

section \<open>The loops of the packer\<close>

lemma add_media_file_alt: "add_media_file rt item z = (case media_content rt item of None \<Rightarrow> z | Some b \<Rightarrow> z(media_path item \<mapsto> Binary b))"
  by (simp add: add_media_file_def media_content_def zip_add_def split: option.splits)

lemma add_mascot_file_alt: "add_mascot_file rt item z = (case pose_stored rt item of None \<Rightarrow> z | Some b \<Rightarrow> z(pose_path item \<mapsto> Binary b))"
  by (simp add: add_mascot_file_def pose_stored_def zip_add_def split: option.splits sum.splits)

lemma store_step_apply:
  "store_step k g x z p = (case g x of None \<Rightarrow> z p | Some b \<Rightarrow> if p = k x then Some (Binary b) else z p)"
  by (simp add: store_step_def split: option.splits)

lemma fold_store_other:
  "(\<And>x. x \<in> set xs \<Longrightarrow> g x \<noteq> None \<Longrightarrow> k x \<noteq> p) \<Longrightarrow> fold (store_step k g) xs z p = z p"
  by (induction xs arbitrary: z) (auto simp: store_step_apply split: option.splits)

lemma fold_store_last:
  "x \<in> set xs \<Longrightarrow> g x \<noteq> None \<Longrightarrow>
   \<exists>y\<in>set xs. k y = k x \<and> (\<exists>b. g y = Some b \<and> fold (store_step k g) xs z (k x) = Some (Binary b))"
proof (induction xs arbitrary: z rule: rev_induct)
  case Nil
  then show ?case by simp
next
  case (snoc a xs)
  define w where "w = fold (store_step k g) xs z"
  have step: "fold (store_step k g) (xs @ [a]) z (k x) = store_step k g a w (k x)"
    by (simp add: w_def)
  show ?case
  proof (cases "g a \<noteq> None \<and> k a = k x")
    case True
    then obtain b where "g a = Some b" by auto
    with True have "store_step k g a w (k x) = Some (Binary b)"
      by (simp add: store_step_apply)
    with step True \<open>g a = Some b\<close> show ?thesis by auto
  next
    case False
    with snoc.prems have "x \<in> set xs" by auto
    from snoc.IH[OF this snoc.prems(2), of z] obtain y b where
      y: "y \<in> set xs" "k y = k x" "g y = Some b" "w (k x) = Some (Binary b)"
      unfolding w_def by blast
    from False have "store_step k g a w (k x) = w (k x)"
      by (auto simp: store_step_apply split: option.splits)
    with step y show ?thesis by auto
  qed
qed


section \<open>Unpacking a document of asset records\<close>

lemma attach_handle_record:
  "is_record v \<Longrightarrow> attach_handle rt z i v = Inr (spec_rehydrated rt z i v)"
  by (auto simp: is_record_def record_path_def attach_handle_def spec_rehydrated_def entry_name_def
      zip_file_def split: jsval.splits option.splits)

lemma attach_all_records:
  "\<forall>v\<in>set xs. is_record v \<Longrightarrow> attach_all rt z i xs = Inr (spec_rehydrated_list rt z i xs)"
proof (induction xs arbitrary: i)
  case Nil
  then show ?case by (simp add: spec_rehydrated_list_def)
next
  case (Cons a xs)
  have "[i ..< i + length (a # xs)] = i # [Suc i ..< Suc i + length xs]"
    by (simp add: upt_rec)
  then have "spec_rehydrated_list rt z i (a # xs) = spec_rehydrated rt z i a # spec_rehydrated_list rt z (Suc i) xs"
    by (simp add: spec_rehydrated_list_def)
  with Cons show ?case by (simp add: attach_handle_record)
qed

lemma length_rehydrated_list: "length (spec_rehydrated_list rt z i xs) = length xs"
  by (simp add: spec_rehydrated_list_def)

lemma nth_rehydrated_list:
  "j < length xs \<Longrightarrow> spec_rehydrated_list rt z i xs ! j = spec_rehydrated rt z (i + j) (xs ! j)"
  by (simp add: spec_rehydrated_list_def)

lemma record_path_rehydrated: "record_path (spec_rehydrated rt z i v) = record_path v"
  by (auto simp: record_path_def spec_rehydrated_def update_conv split: jsval.splits option.splits)

lemma unzip_records:
  assumes "zip_file z ''curso.json'' = Some e" and "read_json rt e = Some (JObj ps)"
    and "map_of ps ''media'' = Some (JArr ms [])" and "map_of ps ''mascot'' = Some (JArr qs [])"
    and "\<forall>v\<in>set ms. is_record v" and "\<forall>v\<in>set qs. is_record v"
  shows "unzipCourse rt z =
     Inr (JObj (AList.update ''mascot'' (array (spec_rehydrated_list rt z (length ms) qs))
                 (AList.update ''media'' (array (spec_rehydrated_list rt z 0 ms)) ps)))"
  using assms by (simp add: unzipCourse_def array_prop_def attach_all_records)

section \<open>The archive that packing builds\<close>

lemma add_media_file_step: "add_media_file rt = store_step media_path (media_content rt)"
  by (intro ext) (simp add: add_media_file_alt store_step_def)

lemma add_mascot_file_step: "add_mascot_file rt = store_step pose_path (pose_stored rt)"
  by (intro ext) (simp add: add_mascot_file_alt store_step_def)

lemma zipCourse_alt:
  "zipCourse rt c ids =
     fold (store_step pose_path (pose_stored rt)) (mascot (courseToSave c ids))
       (fold (store_step media_path (media_content rt)) (media (courseToSave c ids))
          (Map.empty(''curso.json'' \<mapsto> Text (Some (cleanCourse (courseToSave c ids))))))"
  by (simp add: zipCourse_def Let_def add_media_file_step add_mascot_file_step zip_add_def)

lemma media_courseToSave: "media (courseToSave c ids) = media c"
  by (simp add: courseToSave_def)

lemma mascot_courseToSave:
  "mascot (courseToSave c ids) = map (rename_pose (mascot_slug (mascotName (settings c)))) (mascot c)"
  by (simp add: courseToSave_def)

lemma pose_path_rename: "pose_path (rename_pose s p) = mascot_path s (pose_type p)"
  by (simp add: rename_pose_def)

lemma pose_content_rename: "pose_content rt (rename_pose s p) = pose_content rt p"
  by (cases "pose_file p") (simp_all add: rename_pose_def pose_content_def)

lemma pose_stored_rename: "pose_stored rt (rename_pose s p) = pose_stored rt p"
  by (simp add: pose_stored_def pose_content_rename)

lemma mascot_path_not_manifest: "mascot_path s t \<noteq> ''curso.json''"
  by (simp add: mascot_path_def)

lemma mascot_path_inj: "mascot_path s t = mascot_path s t' \<longleftrightarrow> t = t'"
  by (simp add: mascot_path_def)

lemma zipCourse_manifest_resolved:
  assumes "\<forall>m\<in>set (media c). media_content rt m \<noteq> None \<longrightarrow> media_path m \<noteq> ''curso.json''"
  shows "zipCourse rt c ids ''curso.json'' = Some (Text (Some (cleanCourse (courseToSave c ids))))"
proof -
  have 1: "fold (store_step pose_path (pose_stored rt)) (mascot (courseToSave c ids)) z ''curso.json'' = z ''curso.json''" for z
    by (rule fold_store_other) (auto simp: mascot_courseToSave pose_path_rename mascot_path_not_manifest)
  have 2: "fold (store_step media_path (media_content rt)) (media (courseToSave c ids)) z ''curso.json'' = z ''curso.json''" for z
    using assms by (intro fold_store_other) (simp add: media_courseToSave)
  show ?thesis by (simp add: zipCourse_alt 1 2)
qed

lemma zipCourse_manifest:
  assumes "''curso.json'' \<notin> set (map media_path (media c))"
  shows "zipCourse rt c ids ''curso.json'' = Some (Text (Some (cleanCourse (courseToSave c ids))))"
proof (rule zipCourse_manifest_resolved)
  show "\<forall>m\<in>set (media c). media_content rt m \<noteq> None \<longrightarrow> media_path m \<noteq> ''curso.json''"
    using assms by force
qed


lemma clean_media_item:
  "stringify_fields (rest_fields (media_fields m)) =
     JObj [(''id'', JStr (media_id m)), (''name'', JStr (media_name m)),
           (''path'', JStr (media_path m)), (''type'', media_kind_json (media_type m))]"
  by (simp add: stringify_fields_def rest_fields_def media_fields_def split: option.splits)

lemma clean_pose_item:
  "stringify_fields (rest_fields (pose_fields p)) =
     JObj [(''type'', JStr (pose_type p)), (''path'', JStr (pose_path p))]"
  by (simp add: stringify_fields_def rest_fields_def pose_fields_def split: option.splits)

lemma record_path_clean_media: "record_path (stringify_fields (rest_fields (media_fields m))) = Some (media_path m)"
  by (simp add: clean_media_item record_path_def)

lemma record_path_clean_pose: "record_path (stringify_fields (rest_fields (pose_fields p))) = Some (pose_path p)"
  by (simp add: clean_pose_item record_path_def)

lemma unzip_document:
  assumes "zip_file z ''curso.json'' = Some (Text (Some (cleanCourse (courseToSave c ids))))"
  shows "unzipCourse rt z =
     Inr (JObj [(''id'', JStr (course_id c)), (''settings'', settings_json (settings c)),
                (''modules'', array (map module_json (modules (courseToSave c ids)))),
                (''media'', array (spec_rehydrated_list rt z 0 (cleanMedia (courseToSave c ids)))),
                (''mascot'', array (spec_rehydrated_list rt z (length (media c))
                                      (cleanMascot (courseToSave c ids))))])"
proof -
  let ?cts = "courseToSave c ids"
  let ?ps = "[(''id'', JStr (course_id ?cts)), (''settings'', settings_json (settings ?cts)),
      (''modules'', array (map module_json (modules ?cts))),
      (''media'', array (cleanMedia ?cts)), (''mascot'', array (cleanMascot ?cts))]"
  have a: "zip_file z ''curso.json'' = Some (Text (Some (JObj ?ps)))"
    using assms by (simp add: cleanCourse_def)
  have b: "read_json rt (Text (Some (JObj ?ps))) = Some (JObj ?ps)"
    by (simp add: read_json_def)
  have c: "map_of ?ps ''media'' = Some (JArr (cleanMedia ?cts) [])"
    by (simp add: array_def)
  have d: "map_of ?ps ''mascot'' = Some (JArr (cleanMascot ?cts) [])"
    by (simp add: array_def)
  have e: "\<forall>v\<in>set (cleanMedia ?cts). is_record v"
    by (auto simp: cleanMedia_def is_record_def record_path_clean_media)
  have f: "\<forall>v\<in>set (cleanMascot ?cts). is_record v"
    by (auto simp: cleanMascot_def is_record_def record_path_clean_pose)
  have len: "length (cleanMedia ?cts) = length (media c)"
    by (simp add: cleanMedia_def media_courseToSave)
  have ids: "course_id ?cts = course_id c" "settings ?cts = settings c"
    by (simp_all add: courseToSave_def)
  show ?thesis
    unfolding unzip_records[OF a b c d e f] by (simp add: len ids)
qed

section \<open>What a document determines\<close>

lemma optional_inj: "optional k a = optional k b \<longleftrightarrow> a = b"
  by (cases a; cases b) (simp_all add: optional_def)

lemma array_inj: "array xs = array ys \<longleftrightarrow> xs = ys"
  by (simp add: array_def)

lemma quiz_option_json_inj: "quiz_option_json p = quiz_option_json q \<longleftrightarrow> p = q"
  by (cases p; cases q) (auto simp: quiz_option_json_def)

lemma map_inj_iff: "(\<And>x y. f x = f y \<longleftrightarrow> x = y) \<Longrightarrow> map f xs = map f ys \<longleftrightarrow> xs = ys"
  by (rule inj_map_eq_map) (simp add: inj_on_def)

lemma quiz_question_json_inj: "quiz_question_json p = quiz_question_json q \<longleftrightarrow> p = q"
  by (cases p; cases q)
     (auto simp: quiz_question_json_def array_inj map_inj_iff[OF quiz_option_json_inj])

lemma card_json_inj: "card_json p = card_json q \<longleftrightarrow> p = q"
  by (cases p; cases q) (auto simp: card_json_def)

lemma timeline_event_json_inj: "timeline_event_json p = timeline_event_json q \<longleftrightarrow> p = q"
  by (cases p; cases q) (auto simp: timeline_event_json_def optional_inj)

lemma experiment_step_json_inj: "experiment_step_json p = experiment_step_json q \<longleftrightarrow> p = q"
  by (cases p; cases q) (auto simp: experiment_step_json_def optional_inj)

lemma optional_two_inj:
  "k \<noteq> k' \<Longrightarrow> optional k a @ optional k' b = optional k a' @ optional k' b' \<longleftrightarrow> a = a' \<and> b = b'"
  by (cases a; cases b; cases a'; cases b') (auto simp: optional_def)

lemma payload_json_inj: "payload_json p = payload_json q \<longleftrightarrow> p = q"
proof (cases p)
  case (TextModule x)
  then show ?thesis by (cases q) auto
next
  case (VideoModule s u f)
  then show ?thesis
  proof (cases q)
    case (VideoModule s' u' f')
    have "optional ''url'' u @ optional ''filePath'' f = optional ''url'' u' @ optional ''filePath'' f'
        \<longleftrightarrow> u = u' \<and> f = f'"
      by (rule optional_two_inj) simp
    with VideoModule \<open>p = VideoModule s u f\<close> show ?thesis
      by (cases s; cases s') auto
  qed auto
next
  case (QuizModule x)
  then show ?thesis
    by (cases q) (auto simp: array_inj map_inj_iff[OF quiz_question_json_inj])
next
  case (CardsModule x)
  then show ?thesis
    by (cases q) (auto simp: array_inj map_inj_iff[OF card_json_inj])
next
  case (TimelineModule x)
  then show ?thesis
    by (cases q) (auto simp: array_inj map_inj_iff[OF timeline_event_json_inj])
next
  case (ExperimentModule x)
  then show ?thesis
    by (cases q) (auto simp: array_inj map_inj_iff[OF experiment_step_json_inj])
qed

lemma module_json_inj: "module_json p = module_json q \<longleftrightarrow> p = q"
  by (cases p; cases q) (auto simp: module_json_def payload_json_inj)

lemma modules_json_inj: "array (map module_json xs) = array (map module_json ys) \<longleftrightarrow> xs = ys"
  by (simp add: array_inj map_inj_iff[OF module_json_inj])

lemma settings_json_inj: "settings_json p = settings_json q \<longleftrightarrow> p = q"
proof
  assume eq: "settings_json p = settings_json q"
  have m: "mascotName p = mascotName q"
    using eq by (cases "mascotName p"; cases "mascotName q") (auto simp: settings_json_def optional_def)
  with eq have rest: "courseName p = courseName q" "school p = school q" "authors p = authors q"
    "date p = date q" "description p = description q"
    "primaryColor (theme p) = primaryColor (theme q)" "font (theme p) = font (theme q)"
    "language p = language q" "mascotEnabled p = mascotEnabled q" "showScore p = showScore q"
    by (simp_all add: settings_json_def)
  then have "theme p = theme q" by (simp add: theme.equality)
  with m rest show "p = q" by (simp add: course_settings.equality)
next
  assume "p = q"
  then show "settings_json p = settings_json q" by simp
qed

section \<open>Properties of packing and unpacking\<close>

lemma map_record_path_rehydrated_list:
  "map record_path (spec_rehydrated_list rt z i xs) = map record_path xs"
  by (rule nth_equalityI) (simp_all add: length_rehydrated_list nth_rehydrated_list record_path_rehydrated)

lemma fold_store_cong:
  "z p = z' p \<Longrightarrow> fold (store_step k g) xs z p = fold (store_step k g) xs z' p"
proof (induction xs arbitrary: z z')
  case Nil
  then show ?case by simp
next
  case (Cons a xs)
  from Cons.prems have "store_step k g a z p = store_step k g a z' p"
    by (simp add: store_step_apply split: option.splits)
  then have "fold (store_step k g) xs (store_step k g a z) p = fold (store_step k g) xs (store_step k g a z') p"
    by (rule Cons.IH[of "store_step k g a z" "store_step k g a z'"])
  then show ?case by simp
qed

lemma resize_png: "resizeImageToSquare rt b = Inr r \<Longrightarrow> is_png_1500 r"
  by (auto simp: resizeImageToSquare_def toBlob_def is_png_1500_def Let_def
      split: option.splits if_splits)

lemma attach_all_error: "attach_all rt z i xs = Inl e \<Longrightarrow> e = TypeError"
proof (induction xs arbitrary: i)
  case Nil
  then show ?case by simp
next
  case (Cons a xs)
  have set_err: "set_prop v k u = Inl e \<Longrightarrow> e = TypeError" for v k u
    by (cases v) auto
  have get_err: "get_prop v k = Inl e \<Longrightarrow> e = TypeError" for v k
    by (cases v) auto
  have "attach_handle rt z i a = Inl e \<Longrightarrow> e = TypeError"
    by (auto simp: attach_handle_def split: sum.splits option.splits dest: set_err get_err)
  with Cons show ?case
    by (auto split: sum.splits)
qed

lemma set_prop_error: "set_prop v k u = Inl e \<Longrightarrow> e = TypeError"
  by (cases v) auto

lemma array_prop_error: "array_prop v k = Inl e \<Longrightarrow> e = TypeError"
  by (cases v) (auto simp: array_prop_def split: option.splits jsval.splits if_splits)

lemma unzip_error_cases:
  assumes "zip_file z ''curso.json'' = Some e" and "read_json rt e = Some v" and "unzipCourse rt z = Inl err"
  shows "err = TypeError"
  using assms
  by (auto simp: unzipCourse_def split: sum.splits dest: attach_all_error set_prop_error array_prop_error)

text \<open>
  C4, as amended. Unpacking fails with the missing-manifest error exactly when the archive
  has no entry \<open>curso.json\<close>, and with a syntax error exactly when that entry does not
  parse as JSON; no course is returned then. When the entry parses to an object whose
  \<open>media\<close> and \<open>mascot\<close> are arrays of asset records, unpacking returns a course.
  When it parses to a value whose \<open>media\<close> or \<open>mascot\<close> is not an array, unpacking
  fails with a type error.
\<close>

theorem unzip_failure_cases:
  "(unzipCourse rt z = Inl ManifestMissing \<longleftrightarrow> zip_file z ''curso.json'' = None) \<and>
   (unzipCourse rt z = Inl SyntaxError \<longleftrightarrow>
      (\<exists>e. zip_file z ''curso.json'' = Some e \<and> read_json rt e = None)) \<and>
   (\<forall>e ps ms qs. zip_file z ''curso.json'' = Some e \<and> read_json rt e = Some (JObj ps) \<and>
       map_of ps ''media'' = Some (JArr ms []) \<and> map_of ps ''mascot'' = Some (JArr qs []) \<and>
       (\<forall>v\<in>set (ms @ qs). is_record v) \<longrightarrow> (\<exists>v. unzipCourse rt z = Inr v)) \<and>
   (\<forall>e v. zip_file z ''curso.json'' = Some e \<and> read_json rt e = Some v \<and>
       (isl (array_prop v ''media'') \<or> isl (array_prop v ''mascot'')) \<longrightarrow>
       unzipCourse rt z = Inl TypeError)"
proof (intro conjI allI impI)
  show "unzipCourse rt z = Inl ManifestMissing \<longleftrightarrow> zip_file z ''curso.json'' = None"
  proof (cases "zip_file z ''curso.json''")
    case None
    then show ?thesis by (simp add: unzipCourse_def)
  next
    case (Some e)
    show ?thesis
    proof (cases "read_json rt e")
      case None
      with Some show ?thesis by (simp add: unzipCourse_def)
    next
      case (Some v)
      with \<open>zip_file z ''curso.json'' = Some e\<close> unzip_error_cases[of z e rt v ManifestMissing]
      show ?thesis by auto
    qed
  qed
next
  show "unzipCourse rt z = Inl SyntaxError \<longleftrightarrow>
      (\<exists>e. zip_file z ''curso.json'' = Some e \<and> read_json rt e = None)"
  proof (cases "zip_file z ''curso.json''")
    case None
    then show ?thesis by (simp add: unzipCourse_def)
  next
    case (Some e)
    show ?thesis
    proof (cases "read_json rt e")
      case None
      with Some show ?thesis by (simp add: unzipCourse_def)
    next
      case (Some v)
      with \<open>zip_file z ''curso.json'' = Some e\<close> unzip_error_cases[of z e rt v SyntaxError]
      show ?thesis by auto
    qed
  qed
next
  fix e ps ms qs
  assume a: "zip_file z ''curso.json'' = Some e \<and> read_json rt e = Some (JObj ps) \<and>
       map_of ps ''media'' = Some (JArr ms []) \<and> map_of ps ''mascot'' = Some (JArr qs []) \<and>
       (\<forall>v\<in>set (ms @ qs). is_record v)"
  then have "\<forall>v\<in>set ms. is_record v" "\<forall>v\<in>set qs. is_record v" by auto
  with a unzip_records[of z e rt ps ms qs] show "\<exists>v. unzipCourse rt z = Inr v" by simp
next
  fix e v
  assume b: "zip_file z ''curso.json'' = Some e \<and> read_json rt e = Some v \<and>
       (isl (array_prop v ''media'') \<or> isl (array_prop v ''mascot''))"
  then have "isl (unzipCourse rt z)"
    by (auto simp: unzipCourse_def isl_def split: sum.splits)
  then obtain err where "unzipCourse rt z = Inl err" by (auto simp: isl_def)
  with b unzip_error_cases[of z e rt v err] show "unzipCourse rt z = Inl TypeError" by simp
qed

theorem unzip_failure_cases_witness:
  "unzipCourse ex_runtime Map.empty = Inl ManifestMissing \<and>
   unzipCourse ex_runtime (Map.empty(''curso.json'' \<mapsto> Text None)) = Inl SyntaxError \<and>
   (\<exists>v. unzipCourse ex_runtime (zipCourse ex_runtime ex_course None) = Inr v) \<and>
   unzipCourse ex_runtime (Map.empty(''curso.json'' \<mapsto> Text (Some (JArr [] [])))) = Inl TypeError"
proof -
  have 1: "zip_file Map.empty ''curso.json'' = None" by (simp add: zip_file_def)
  have 2: "zip_file (Map.empty(''curso.json'' \<mapsto> Text None)) ''curso.json'' = Some (Text None)
           \<and> read_json ex_runtime (Text None) = None"
    by (simp add: zip_file_def read_json_def)
  let ?z = "zipCourse ex_runtime ex_course None"
  let ?ps = "[(''id'', JStr ''course_1''), (''settings'', settings_json ex_settings),
      (''modules'', array (map module_json [ex_module ''m1'', ex_module ''m2'', ex_module ''m3''])),
      (''media'', array (cleanMedia (courseToSave ex_course None))),
      (''mascot'', array (cleanMascot (courseToSave ex_course None)))]"
  have 3: "zip_file ?z ''curso.json'' = Some (Text (Some (JObj ?ps)))"
    by code_simp
  have 4: "read_json ex_runtime (Text (Some (JObj ?ps))) = Some (JObj ?ps)"
    by (simp add: read_json_def)
  have 5: "map_of ?ps ''media'' = Some (JArr (cleanMedia (courseToSave ex_course None)) [])"
       "map_of ?ps ''mascot'' = Some (JArr (cleanMascot (courseToSave ex_course None)) [])"
    by (simp_all add: array_def)
  have 6: "\<forall>v\<in>set (cleanMedia (courseToSave ex_course None) @ cleanMascot (courseToSave ex_course None)). is_record v"
    by code_simp
  from unzip_failure_cases[of ex_runtime Map.empty] 1
  have a: "unzipCourse ex_runtime Map.empty = Inl ManifestMissing" by blast
  from unzip_failure_cases[of ex_runtime "Map.empty(''curso.json'' \<mapsto> Text None)"] 2
  have b: "unzipCourse ex_runtime (Map.empty(''curso.json'' \<mapsto> Text None)) = Inl SyntaxError" by blast
  from unzip_failure_cases[of ex_runtime ?z] 3 4 5 6
  have c: "\<exists>v. unzipCourse ex_runtime ?z = Inr v" by blast
  have 7: "zip_file (Map.empty(''curso.json'' \<mapsto> Text (Some (JArr [] [])))) ''curso.json'' =
        Some (Text (Some (JArr [] [])))
      \<and> read_json ex_runtime (Text (Some (JArr [] []))) = Some (JArr [] [])
      \<and> (isl (array_prop (JArr [] []) ''media'') \<or> isl (array_prop (JArr [] []) ''mascot''))"
    by (simp add: zip_file_def read_json_def array_prop_def)
  from unzip_failure_cases[of ex_runtime "Map.empty(''curso.json'' \<mapsto> Text (Some (JArr [] [])))"] 7
  have d: "unzipCourse ex_runtime (Map.empty(''curso.json'' \<mapsto> Text (Some (JArr [] [])))) = Inl TypeError"
    by blast
  from a b c d show ?thesis by (intro conjI)
qed

theorem unzip_empty_object_counterexample:
  "zip_file (Map.empty(''curso.json'' \<mapsto> Text (Some (JObj [])))) ''curso.json'' = Some (Text (Some (JObj [])))
   \<and> read_json ex_runtime (Text (Some (JObj []))) = Some (JObj [])
   \<and> unzipCourse ex_runtime (Map.empty(''curso.json'' \<mapsto> Text (Some (JObj [])))) = Inl TypeError"
  by code_simp

text \<open>
  C2, as amended. In the packed course every mascot pose has the path
  \<open>mascot/<slug>_<tag>.png\<close>. The slug is \<open>mascot\<close> when the course has no mascot name;
  otherwise the name is trimmed of white space at both ends and every remaining character
  outside \<open>[A-Za-z0-9]\<close> is replaced by \<open>_\<close>, and \<open>mascot\<close> is taken when nothing remains.
  For the name \<open>Dino 2000!\<close> and the pose \<open>happy\<close> the path is
  \<open>mascot/Dino_2000__happy.png\<close>; for the empty name it is \<open>mascot/mascot_happy.png\<close>.
\<close>

theorem mascot_path_canonical:
  "map pose_path (mascot (courseToSave c ids)) =
     map (\<lambda>p. ''mascot/'' @ mascot_slug (mascotName (settings c)) @ ''_'' @ pose_type p @ ''.png'')
       (mascot c)
   \<and> mascot_slug None = ''mascot''
   \<and> mascot_slug (Some s) =
       (if trim s = [] then ''mascot'' else map (\<lambda>ch. if alnum ch then ch else CHR ''_'') (trim s))
   \<and> mascot_path (mascot_slug (Some ''Dino 2000!'')) ''happy'' = ''mascot/Dino_2000__happy.png''
   \<and> mascot_path (mascot_slug (Some '''')) ''happy'' = ''mascot/mascot_happy.png''"
proof (intro conjI)
  show "map pose_path (mascot (courseToSave c ids)) =
     map (\<lambda>p. ''mascot/'' @ mascot_slug (mascotName (settings c)) @ ''_'' @ pose_type p @ ''.png'')
       (mascot c)"
    by (simp add: courseToSave_def rename_pose_def mascot_path_def)
  show "mascot_slug None = ''mascot''"
    by (simp add: mascot_slug_def)
  show "mascot_slug (Some s) =
       (if trim s = [] then ''mascot'' else map (\<lambda>ch. if alnum ch then ch else CHR ''_'') (trim s))"
    by (simp add: mascot_slug_def Let_def)
  show "mascot_path (mascot_slug (Some ''Dino 2000!'')) ''happy'' = ''mascot/Dino_2000__happy.png''"
    by (simp add: mascot_path_def mascot_slug_def trim_def js_space_def alnum_def)
  show "mascot_path (mascot_slug (Some '''')) ''happy'' = ''mascot/mascot_happy.png''"
    by (simp add: mascot_path_def mascot_slug_def trim_def)
qed

theorem mascot_path_canonical_witness:
  "trim '' Dino 2000! '' \<noteq> []
   \<and> mascot_slug (Some '' Dino 2000! '') = ''Dino_2000_''
   \<and> map pose_path (mascot (courseToSave ex_course None)) =
       [''mascot/Dino_2000__happy.png'', ''mascot/Dino_2000__sad.png'']"
proof -
  have 1: "trim '' Dino 2000! '' = ''Dino 2000!''"
    by (simp add: trim_def js_space_def)
  have 2: "map (\<lambda>ch. if alnum ch then ch else CHR ''_'') ''Dino 2000!'' = ''Dino_2000_''"
    by (simp add: alnum_def)
  have 3: "map (\<lambda>p. ''mascot/'' @ mascot_slug (mascotName (settings ex_course)) @ ''_'' @ pose_type p @ ''.png'')
       (mascot ex_course) = [''mascot/Dino_2000__happy.png'', ''mascot/Dino_2000__sad.png'']"
    by code_simp
  note t = mascot_path_canonical[of ex_course None "'' Dino 2000! ''"]
  from t have a: "mascot_slug (Some '' Dino 2000! '') = ''Dino_2000_''"
    unfolding 1 2 by simp
  from t have b: "map pose_path (mascot (courseToSave ex_course None)) =
       [''mascot/Dino_2000__happy.png'', ''mascot/Dino_2000__sad.png'']"
    unfolding 3 by (elim conjE)
  from 1 a b show ?thesis by simp
qed

theorem mascot_path_dino_counterexample:
  "map pose_path (mascot (courseToSave ex_course None)) ! 0 \<noteq> ''mascot/Dino_2000_happy.png''
   \<and> mascotName (settings ex_course) = Some ''Dino 2000!''
   \<and> pose_type (mascot ex_course ! 0) = ''happy''"
  by code_simp

text \<open>
  C1, as amended. Let no media asset have the path \<open>curso.json\<close>, and let the archive
  library read the packed archive back with the document under \<open>curso.json\<close>. Then
  packing a course with no module filter and unpacking the archive gives a course whose
  settings and modules are those of the original, and of no other settings or module
  list, and whose media paths are the original media paths, in order; its mascot paths
  are the canonical paths \<open>mascot/<slug>_<tag>.png\<close> of the poses, not the paths the poses
  had.
\<close>

theorem pack_unpack_roundtrip:
  assumes nomedia: "''curso.json'' \<notin> set (map media_path (media c))"
    and load: "load_generated rt (zipCourse rt c None) = Some z"
    and doc: "z ''curso.json'' = zipCourse rt c None ''curso.json''"
  shows "\<exists>v. pack_then_unpack rt c None = Some (Inr v)
     \<and> get_prop v ''settings'' = Inr (Some (settings_json (settings c)))
     \<and> get_prop v ''modules'' = Inr (Some (array (map module_json (modules c))))
     \<and> (\<forall>s ms. get_prop v ''settings'' = Inr (Some (settings_json s)) \<and>
           get_prop v ''modules'' = Inr (Some (array (map module_json ms)))
           \<longrightarrow> s = settings c \<and> ms = modules c)
     \<and> asset_paths v =
         map Some (map media_path (media c) @
                   map (\<lambda>p. mascot_path (mascot_slug (mascotName (settings c))) (pose_type p)) (mascot c))"
proof -
  let ?cts = "courseToSave c None"
  let ?ms = "spec_rehydrated_list rt z 0 (cleanMedia ?cts)"
  let ?qs = "spec_rehydrated_list rt z (length (media c)) (cleanMascot ?cts)"
  let ?v = "JObj [(''id'', JStr (course_id c)), (''settings'', settings_json (settings c)),
                (''modules'', array (map module_json (modules ?cts))),
                (''media'', array ?ms), (''mascot'', array ?qs)]"
  have "zip_file z ''curso.json'' = Some (Text (Some (cleanCourse ?cts)))"
    using doc zipCourse_manifest[OF nomedia, of rt None] by (simp add: zip_file_def)
  then have "unzipCourse rt z = Inr ?v" by (rule unzip_document)
  with load have u: "pack_then_unpack rt c None = Some (Inr ?v)"
    by (simp add: pack_then_unpack_def)
  have m: "modules ?cts = modules c" by (simp add: courseToSave_def)
  have p1: "map record_path ?ms = map Some (map media_path (media c))"
    by (simp add: map_record_path_rehydrated_list cleanMedia_def media_courseToSave
        record_path_clean_media)
  have p2: "map record_path ?qs =
      map Some (map (\<lambda>p. mascot_path (mascot_slug (mascotName (settings c))) (pose_type p)) (mascot c))"
    by (simp add: map_record_path_rehydrated_list cleanMascot_def mascot_courseToSave
        record_path_clean_pose pose_path_rename)
  have "asset_paths ?v = map record_path (?ms @ ?qs)"
    by (simp add: asset_paths_def array_prop_def array_def)
  with p1 p2 have a: "asset_paths ?v =
         map Some (map media_path (media c) @
                   map (\<lambda>p. mascot_path (mascot_slug (mascotName (settings c))) (pose_type p)) (mascot c))"
    by simp
  have g: "get_prop ?v ''settings'' = Inr (Some (settings_json (settings c)))"
       "get_prop ?v ''modules'' = Inr (Some (array (map module_json (modules c))))"
    by (simp_all add: m)
  have only: "\<forall>s ms. get_prop ?v ''settings'' = Inr (Some (settings_json s)) \<and>
           get_prop ?v ''modules'' = Inr (Some (array (map module_json ms)))
           \<longrightarrow> s = settings c \<and> ms = modules c"
    unfolding g by (simp add: settings_json_inj modules_json_inj)
  from u g only a show ?thesis by (intro exI[of _ ?v] conjI)
qed

theorem pack_unpack_roundtrip_witness:
  "''curso.json'' \<notin> set (map media_path (media ex_course))
   \<and> load_generated ex_runtime (zipCourse ex_runtime ex_course None) \<noteq> None
   \<and> (\<exists>v. pack_then_unpack ex_runtime ex_course None = Some (Inr v)
        \<and> get_prop v ''settings'' = Inr (Some (settings_json ex_settings))
        \<and> asset_paths v =
            [Some ''media/foto.png'', Some ''media/som.mp3'',
             Some ''mascot/Dino_2000__happy.png'', Some ''mascot/Dino_2000__sad.png''])"
proof -
  let ?t = "zipCourse ex_runtime ex_course None"
  let ?z = "\<lambda>name. if name \<noteq> [] \<and> last name = CHR ''/'' then None else ?t name"
  have h: "''curso.json'' \<notin> set (map media_path (media ex_course))" by code_simp
  have lg: "load_generated ex_runtime =
      (\<lambda>t. Some (\<lambda>name. if name \<noteq> [] \<and> last name = CHR ''/'' then None else t name))"
    by (simp add: ex_runtime_def)
  have l: "load_generated ex_runtime ?t = Some ?z" unfolding lg by simp
  have d: "?z ''curso.json'' = ?t ''curso.json''" by simp
  have s: "settings ex_course = ex_settings" by (simp add: ex_course_def)
  have p: "map Some (map media_path (media ex_course) @
                   map (\<lambda>p. mascot_path (mascot_slug (mascotName ex_settings)) (pose_type p))
                     (mascot ex_course)) =
      [Some ''media/foto.png'', Some ''media/som.mp3'',
       Some ''mascot/Dino_2000__happy.png'', Some ''mascot/Dino_2000__sad.png'']"
    by code_simp
  from pack_unpack_roundtrip[OF h l d]
  have "\<exists>v. pack_then_unpack ex_runtime ex_course None = Some (Inr v)
        \<and> get_prop v ''settings'' = Inr (Some (settings_json ex_settings))
        \<and> asset_paths v =
            [Some ''media/foto.png'', Some ''media/som.mp3'',
             Some ''mascot/Dino_2000__happy.png'', Some ''mascot/Dino_2000__sad.png'']"
    unfolding s p by (elim exE conjE) (rule exI, intro conjI)
  moreover from l have "load_generated ex_runtime ?t \<noteq> None" by simp
  ultimately show ?thesis using h by (intro conjI)
qed

theorem pack_unpack_paths_counterexample:
  "map_option (map_sum id asset_paths) (pack_then_unpack ex_runtime ex_course None) =
     Some (Inr [Some ''media/foto.png'', Some ''media/som.mp3'',
          Some ''mascot/Dino_2000__happy.png'', Some ''mascot/Dino_2000__sad.png''])
   \<and> course_paths ex_course =
     [''media/foto.png'', ''media/som.mp3'', ''mascot/happy.png'', ''mascot/sad.png'']
   \<and> map_option (map_sum id (set \<circ> asset_paths)) (pack_then_unpack ex_runtime ex_course None) \<noteq>
     Some (Inr (Some ` set (course_paths ex_course)))"
proof -
  have 1: "map_option (map_sum id asset_paths) (pack_then_unpack ex_runtime ex_course None) =
     Some (Inr [Some ''media/foto.png'', Some ''media/som.mp3'',
          Some ''mascot/Dino_2000__happy.png'', Some ''mascot/Dino_2000__sad.png''])"
    by code_simp
  have 2: "course_paths ex_course =
     [''media/foto.png'', ''media/som.mp3'', ''mascot/happy.png'', ''mascot/sad.png'']"
    by code_simp
  from 1 obtain r where r: "pack_then_unpack ex_runtime ex_course None = Some r"
    and r1: "map_sum id asset_paths r = Inr [Some ''media/foto.png'', Some ''media/som.mp3'',
          Some ''mascot/Dino_2000__happy.png'', Some ''mascot/Dino_2000__sad.png'']"
    by (cases "pack_then_unpack ex_runtime ex_course None") auto
  from r1 obtain v where v: "r = Inr v"
    and a: "asset_paths v = [Some ''media/foto.png'', Some ''media/som.mp3'',
          Some ''mascot/Dino_2000__happy.png'', Some ''mascot/Dino_2000__sad.png'']"
    by (cases r) auto
  have "Some ''mascot/happy.png'' \<notin> set (asset_paths v)" unfolding a by simp
  moreover have "Some ''mascot/happy.png'' \<in> Some ` set (course_paths ex_course)" unfolding 2 by simp
  ultimately have "set (asset_paths v) \<noteq> Some ` set (course_paths ex_course)" by blast
  then have 3: "map_option (map_sum id (set \<circ> asset_paths)) (pack_then_unpack ex_runtime ex_course None) \<noteq>
     Some (Inr (Some ` set (course_paths ex_course)))"
    unfolding r v by simp
  from 1 2 3 show ?thesis by (intro conjI)
qed

text \<open>
  C3, as amended. For a mascot pose whose content was resolved, the entry under its
  canonical path holds the content of a resolved pose of the same tag: normalised to a PNG
  of 1500 by 1500 when normalising it succeeded, and as it was when normalising failed.
\<close>

theorem mascot_entry_normalized_or_original:
  assumes "p \<in> set (mascot c)" and "pose_content rt p = Some content"
  shows "\<exists>q\<in>set (mascot c). pose_type q = pose_type p \<and>
     (\<exists>b. pose_content rt q = Some b \<and>
        (case resizeImageToSquare rt b of
           Inr r \<Rightarrow> is_png_1500 r \<and>
             zipCourse rt c ids (mascot_path (mascot_slug (mascotName (settings c))) (pose_type p))
               = Some (Binary r)
         | Inl e \<Rightarrow>
             zipCourse rt c ids (mascot_path (mascot_slug (mascotName (settings c))) (pose_type p))
               = Some (Binary b)))"
proof -
  let ?s = "mascot_slug (mascotName (settings c))"
  let ?xs = "map (rename_pose ?s) (mascot c)"
  have in_xs: "rename_pose ?s p \<in> set ?xs" using assms(1) by simp
  have "pose_stored rt p \<noteq> None"
    using assms(2) by (simp add: pose_stored_def split: sum.splits)
  then have res: "pose_stored rt (rename_pose ?s p) \<noteq> None"
    by (simp add: pose_stored_rename)
  let ?z1 = "fold (store_step media_path (media_content rt)) (media (courseToSave c ids))
          (Map.empty(''curso.json'' \<mapsto> Text (Some (cleanCourse (courseToSave c ids)))))"
  from fold_store_last[where x = "rename_pose ?s p" and xs = ?xs and g = "pose_stored rt"
      and k = pose_path and z = ?z1, OF in_xs res]
  obtain y b where y: "y \<in> set ?xs" "pose_path y = pose_path (rename_pose ?s p)"
    "pose_stored rt y = Some b"
    and z: "zipCourse rt c ids (pose_path (rename_pose ?s p)) = Some (Binary b)"
    unfolding zipCourse_alt mascot_courseToSave by blast
  from y(1) obtain q where q: "q \<in> set (mascot c)" "y = rename_pose ?s q" by auto
  from y(2) q(2) have t: "pose_type q = pose_type p"
    by (simp add: pose_path_rename mascot_path_inj)
  from y(3) q(2) have st: "pose_stored rt q = Some b" by (simp add: pose_stored_rename)
  then obtain b0 where b0: "pose_content rt q = Some b0"
    by (auto simp: pose_stored_def split: option.splits)
  have "case resizeImageToSquare rt b0 of
           Inr r \<Rightarrow> is_png_1500 r \<and> zipCourse rt c ids (mascot_path ?s (pose_type p)) = Some (Binary r)
         | Inl e \<Rightarrow> zipCourse rt c ids (mascot_path ?s (pose_type p)) = Some (Binary b0)"
    using st b0 z by (auto simp: pose_stored_def pose_path_rename split: sum.splits dest: resize_png)
  with q(1) t b0 show ?thesis by blast
qed

theorem mascot_entry_normalized_or_original_witness:
  "mascot ex_course ! 0 \<in> set (mascot ex_course)
   \<and> pose_content ex_runtime (mascot ex_course ! 0) = Some png_file
   \<and> (\<exists>r. zipCourse ex_runtime ex_course None ''mascot/Dino_2000__happy.png'' = Some (Binary r)
          \<and> is_png_1500 r)"
proof -
  have 1: "mascot ex_course ! 0 \<in> set (mascot ex_course)" by code_simp
  have 2: "pose_content ex_runtime (mascot ex_course ! 0) = Some png_file" by code_simp
  have 3: "mascot_path (mascot_slug (mascotName (settings ex_course))) (pose_type (mascot ex_course ! 0))
     = ''mascot/Dino_2000__happy.png''" by code_simp
  have 4: "\<And>q. q \<in> set (mascot ex_course) \<Longrightarrow> pose_type q = pose_type (mascot ex_course ! 0)
     \<Longrightarrow> pose_content ex_runtime q = Some png_file"
    by (auto simp: ex_course_def ex_mascot_def pose_content_def)
  have "\<not> isl (resizeImageToSquare ex_runtime png_file)" by code_simp
  then have 5: "\<exists>r. resizeImageToSquare ex_runtime png_file = Inr r"
    by (cases "resizeImageToSquare ex_runtime png_file") simp_all
  from mascot_entry_normalized_or_original[OF 1 2, of None]
  obtain q b where "q \<in> set (mascot ex_course)" "pose_type q = pose_type (mascot ex_course ! 0)"
    "pose_content ex_runtime q = Some b"
    and c: "case resizeImageToSquare ex_runtime b of
           Inr r \<Rightarrow> is_png_1500 r \<and>
             zipCourse ex_runtime ex_course None ''mascot/Dino_2000__happy.png'' = Some (Binary r)
         | Inl e \<Rightarrow>
             zipCourse ex_runtime ex_course None ''mascot/Dino_2000__happy.png'' = Some (Binary b)"
    unfolding 3 by (elim bexE exE conjE)
  with 4 have "b = png_file" by auto
  with c 5 have "\<exists>r. zipCourse ex_runtime ex_course None ''mascot/Dino_2000__happy.png'' = Some (Binary r)
          \<and> is_png_1500 r" by auto
  with 1 2 show ?thesis by blast
qed

theorem mascot_entry_unnormalized_counterexample:
  "pose_content ex_runtime (mascot ex_course ! 1) = Some broken_file
   \<and> zipCourse ex_runtime ex_course None ''mascot/Dino_2000__sad.png'' = Some (Binary broken_file)
   \<and> \<not> is_png_1500 broken_file"
  by code_simp

text \<open>
  C5, as amended. Let the \<open>i\<close>-th media asset have no file and a \<open>blobUrl\<close> that cannot be
  fetched, let no other asset whose content resolves be stored under its path, and let no
  media asset have the path \<open>curso.json\<close>. Then packing still builds the archive: the
  document is there, its \<open>i\<close>-th media record has the path of the asset, and no entry has
  that path. If the archive library reads the archive back with the document under
  \<open>curso.json\<close> and still no entry under that path, unpacking returns a course whose
  \<open>i\<close>-th media record has that path and no \<open>blobUrl\<close>.
\<close>

theorem missing_media_tolerated:
  assumes i: "i < length (media c)"
    and nofile: "media_file (media c ! i) = None"
    and nofetch: "fetch_blob rt (media_blobUrl (media c ! i)) = None"
    and manifest: "''curso.json'' \<notin> set (map media_path (media c))"
    and others: "\<forall>j<length (media c). j \<noteq> i \<longrightarrow> media_content rt (media c ! j) \<noteq> None \<longrightarrow>
        media_path (media c ! j) \<noteq> media_path (media c ! i)"
    and poses: "\<forall>p\<in>set (mascot c). pose_content rt p \<noteq> None \<longrightarrow>
        mascot_path (mascot_slug (mascotName (settings c))) (pose_type p) \<noteq> media_path (media c ! i)"
    and load: "load_generated rt (zipCourse rt c ids) = Some z"
    and doc: "z ''curso.json'' = zipCourse rt c ids ''curso.json''"
    and same: "z (media_path (media c ! i)) = zipCourse rt c ids (media_path (media c ! i))"
  shows "zipCourse rt c ids (media_path (media c ! i)) = None
    \<and> zipCourse rt c ids ''curso.json'' = Some (Text (Some (cleanCourse (courseToSave c ids))))
    \<and> record_path (cleanMedia (courseToSave c ids) ! i) = Some (media_path (media c ! i))
    \<and> (\<exists>v ms. pack_then_unpack rt c ids = Some (Inr v) \<and> array_prop v ''media'' = Inr ms
          \<and> length ms = length (media c)
          \<and> record_path (ms ! i) = Some (media_path (media c ! i))
          \<and> get_prop (ms ! i) ''blobUrl'' = Inr None)"
proof -
  let ?m = "media c ! i"
  let ?cts = "courseToSave c ids"
  let ?t = "zipCourse rt c ids"
  have mem: "?m \<in> set (media c)" using i by simp
  then have "media_path ?m \<in> set (map media_path (media c))" by simp
  with manifest have ne: "media_path ?m \<noteq> ''curso.json''" by metis
  have unresolved: "media_content rt ?m = None"
    using nofile nofetch by (simp add: media_content_def)
  have a1: "fold (store_step pose_path (pose_stored rt)) (mascot ?cts) w (media_path ?m) = w (media_path ?m)" for w
  proof (rule fold_store_other)
    fix x assume x: "x \<in> set (mascot ?cts)" "pose_stored rt x \<noteq> None"
    then obtain p where p: "p \<in> set (mascot c)" "x = rename_pose (mascot_slug (mascotName (settings c))) p"
      by (auto simp: mascot_courseToSave)
    with x(2) have "pose_stored rt p \<noteq> None"
      by (simp add: pose_stored_rename)
    then have "pose_content rt p \<noteq> None"
      by (auto simp: pose_stored_def split: option.splits)
    with poses p show "pose_path x \<noteq> media_path ?m" by (simp add: pose_path_rename)
  qed
  have a2: "fold (store_step media_path (media_content rt)) (media ?cts) w (media_path ?m) = w (media_path ?m)" for w
  proof (rule fold_store_other)
    fix x assume x: "x \<in> set (media ?cts)" "media_content rt x \<noteq> None"
    then obtain j where j: "j < length (media c)" "x = media c ! j"
      by (auto simp: media_courseToSave in_set_conv_nth)
    with x(2) unresolved have "j \<noteq> i" by auto
    with others j x(2) show "media_path x \<noteq> media_path ?m" by simp
  qed
  have none: "?t (media_path ?m) = None"
    using ne by (simp add: zipCourse_alt a1 a2)
  have man: "?t ''curso.json'' = Some (Text (Some (cleanCourse ?cts)))"
    by (rule zipCourse_manifest[OF manifest])
  have item: "cleanMedia ?cts ! i = stringify_fields (rest_fields (media_fields ?m))"
    using i by (simp add: cleanMedia_def media_courseToSave)
  have rp: "record_path (cleanMedia ?cts ! i) = Some (media_path ?m)"
    by (simp add: item record_path_clean_media)
  let ?ms = "spec_rehydrated_list rt z 0 (cleanMedia ?cts)"
  have len: "length (cleanMedia ?cts) = length (media c)"
    by (simp add: cleanMedia_def media_courseToSave)
  have znone: "z (media_path ?m) = None" using same none by simp
  have "?ms ! i = spec_rehydrated rt z i (cleanMedia ?cts ! i)"
    using nth_rehydrated_list[of i "cleanMedia ?cts" rt z 0] i len by simp
  also have "\<dots> = cleanMedia ?cts ! i"
    by (simp add: item clean_media_item spec_rehydrated_def znone)
  finally have kept: "?ms ! i = cleanMedia ?cts ! i" .
  have nb: "get_prop (?ms ! i) ''blobUrl'' = Inr None"
    by (simp add: kept item clean_media_item)
  let ?v = "JObj [(''id'', JStr (course_id c)), (''settings'', settings_json (settings c)),
                (''modules'', array (map module_json (modules ?cts))),
                (''media'', array ?ms),
                (''mascot'', array (spec_rehydrated_list rt z (length (media c)) (cleanMascot ?cts)))]"
  have "zip_file z ''curso.json'' = Some (Text (Some (cleanCourse ?cts)))"
    using doc man by (simp add: zip_file_def)
  then have "unzipCourse rt z = Inr ?v" by (rule unzip_document)
  with load have u: "pack_then_unpack rt c ids = Some (Inr ?v)"
    by (simp add: pack_then_unpack_def)
  have ap: "array_prop ?v ''media'' = Inr ?ms"
    by (simp add: array_prop_def array_def)
  have l2: "length ?ms = length (media c)" by (simp add: length_rehydrated_list len)
  have rp2: "record_path (?ms ! i) = Some (media_path ?m)"
    by (simp only: kept rp)
  from u ap l2 rp2 nb have "pack_then_unpack rt c ids = Some (Inr ?v) \<and> array_prop ?v ''media'' = Inr ?ms
          \<and> length ?ms = length (media c)
          \<and> record_path (?ms ! i) = Some (media_path ?m)
          \<and> get_prop (?ms ! i) ''blobUrl'' = Inr None"
    by (intro conjI)
  then have "\<exists>v ms. pack_then_unpack rt c ids = Some (Inr v) \<and> array_prop v ''media'' = Inr ms
          \<and> length ms = length (media c)
          \<and> record_path (ms ! i) = Some (media_path ?m)
          \<and> get_prop (ms ! i) ''blobUrl'' = Inr None"
    by (intro exI)
  with none man rp show ?thesis by (intro conjI)
qed

theorem missing_media_tolerated_witness:
  "(1::nat) < length (media ex_course)
   \<and> media_file (media ex_course ! 1) = None
   \<and> fetch_blob ex_runtime (media_blobUrl (media ex_course ! 1)) = None
   \<and> load_generated ex_runtime (zipCourse ex_runtime ex_course None) \<noteq> None
   \<and> zipCourse ex_runtime ex_course None ''media/som.mp3'' = None
   \<and> (\<exists>v ms. pack_then_unpack ex_runtime ex_course None = Some (Inr v)
         \<and> array_prop v ''media'' = Inr ms
         \<and> record_path (ms ! 1) = Some ''media/som.mp3''
         \<and> get_prop (ms ! 1) ''blobUrl'' = Inr None)"
proof -
  let ?t = "zipCourse ex_runtime ex_course None"
  let ?z = "\<lambda>name. if name \<noteq> [] \<and> last name = CHR ''/'' then None else ?t name"
  have 1: "(1::nat) < length (media ex_course)" by code_simp
  have 2: "media_file (media ex_course ! 1) = None" by code_simp
  have 3: "fetch_blob ex_runtime (media_blobUrl (media ex_course ! 1)) = None" by code_simp
  have 4: "''curso.json'' \<notin> set (map media_path (media ex_course))" by code_simp
  have 5: "\<forall>j<length (media ex_course). j \<noteq> 1 \<longrightarrow> media_content ex_runtime (media ex_course ! j) \<noteq> None \<longrightarrow>
      media_path (media ex_course ! j) \<noteq> media_path (media ex_course ! 1)"
    by (simp add: ex_course_def ex_media_def less_Suc_eq)
  have 6: "\<forall>p\<in>set (mascot ex_course). pose_content ex_runtime p \<noteq> None \<longrightarrow>
        mascot_path (mascot_slug (mascotName (settings ex_course))) (pose_type p)
          \<noteq> media_path (media ex_course ! 1)" by code_simp
  have 7: "media_path (media ex_course ! 1) = ''media/som.mp3''" by code_simp
  have lg: "load_generated ex_runtime =
      (\<lambda>t. Some (\<lambda>name. if name \<noteq> [] \<and> last name = CHR ''/'' then None else t name))"
    by (simp add: ex_runtime_def)
  have 8: "load_generated ex_runtime ?t = Some ?z" unfolding lg by simp
  have 9: "?z ''curso.json'' = ?t ''curso.json''" by simp
  have 10: "?z (media_path (media ex_course ! 1)) = ?t (media_path (media ex_course ! 1))"
    unfolding 7 by simp
  from missing_media_tolerated[OF 1 2 3 4 5 6 8 9 10]
  have "zipCourse ex_runtime ex_course None ''media/som.mp3'' = None
   \<and> (\<exists>v ms. pack_then_unpack ex_runtime ex_course None = Some (Inr v)
         \<and> array_prop v ''media'' = Inr ms
         \<and> record_path (ms ! 1) = Some ''media/som.mp3''
         \<and> get_prop (ms ! 1) ''blobUrl'' = Inr None)"
    unfolding 7 by (elim exE conjE) (intro exI conjI)
  moreover from 8 have "load_generated ex_runtime ?t \<noteq> None" by simp
  ultimately show ?thesis using 1 2 3 by (intro conjI) simp_all
qed

theorem missing_media_shared_path_counterexample:
  "media_file (media ex_shared_course ! 1) = None
   \<and> fetch_blob ex_runtime (media_blobUrl (media ex_shared_course ! 1)) = None
   \<and> media_path (media ex_shared_course ! 1) = ''media/foto.png''
   \<and> zipCourse ex_runtime ex_shared_course None ''media/foto.png'' = Some (Binary png_file)
   \<and> map_option (map_sum id media_handles) (pack_then_unpack ex_runtime ex_shared_course None) =
       Some (Inr [Inr (Some (JStr ''blob:'')), Inr (Some (JStr ''blob:x''))])"
  by code_simp

text \<open>
  C6, as amended. Let no media asset whose content resolves have the path \<open>curso.json\<close>.
  Then packing with a list of module ids leaves under \<open>curso.json\<close> a document whose
  modules are the modules of the course whose id is in the list, in the order of the
  course, and no other module list. Every mascot pose has its record in the document,
  and every pose whose content resolves has an entry under its canonical path, holding
  what the packer stores for a resolved pose of that tag. Every entry of the archive but
  the document is the same as without a filter.
\<close>

theorem filter_selects_modules:
  assumes "\<forall>m\<in>set (media c). media_content rt m \<noteq> None \<longrightarrow> media_path m \<noteq> ''curso.json''"
  shows "zipCourse rt c (Some ids) ''curso.json'' =
       Some (Text (Some (cleanCourse (courseToSave c (Some ids)))))
   \<and> get_prop (cleanCourse (courseToSave c (Some ids))) ''modules'' =
       Inr (Some (array (map module_json (filter (\<lambda>m. mod_id m \<in> set ids) (modules c)))))
   \<and> (\<forall>ms. get_prop (cleanCourse (courseToSave c (Some ids))) ''modules'' =
             Inr (Some (array (map module_json ms)))
         \<longrightarrow> ms = filter (\<lambda>m. mod_id m \<in> set ids) (modules c))
   \<and> get_prop (cleanCourse (courseToSave c (Some ids))) ''mascot'' =
       Inr (Some (array (map (\<lambda>p. JObj [(''type'', JStr (pose_type p)),
           (''path'', JStr (mascot_path (mascot_slug (mascotName (settings c))) (pose_type p)))])
         (mascot c))))
   \<and> (\<forall>p\<in>set (mascot c). pose_content rt p \<noteq> None \<longrightarrow>
         (\<exists>q\<in>set (mascot c). pose_type q = pose_type p \<and>
            (\<exists>b. pose_stored rt q = Some b \<and>
               zipCourse rt c (Some ids)
                 (mascot_path (mascot_slug (mascotName (settings c))) (pose_type p)) =
               Some (Binary b))))
   \<and> (\<forall>n. n \<noteq> ''curso.json'' \<longrightarrow> zipCourse rt c (Some ids) n = zipCourse rt c None n)"
proof (intro conjI impI allI ballI)
  let ?s = "mascot_slug (mascotName (settings c))"
  show "zipCourse rt c (Some ids) ''curso.json'' =
       Some (Text (Some (cleanCourse (courseToSave c (Some ids)))))"
    by (rule zipCourse_manifest_resolved[OF assms])
  show m: "get_prop (cleanCourse (courseToSave c (Some ids))) ''modules'' =
     Inr (Some (array (map module_json (filter (\<lambda>m. mod_id m \<in> set ids) (modules c)))))"
    by (simp add: cleanCourse_def courseToSave_def)
  show "ms = filter (\<lambda>m. mod_id m \<in> set ids) (modules c)"
    if "get_prop (cleanCourse (courseToSave c (Some ids))) ''modules'' =
             Inr (Some (array (map module_json ms)))" for ms
    using that unfolding m by (simp add: modules_json_inj)
  show "get_prop (cleanCourse (courseToSave c (Some ids))) ''mascot'' =
       Inr (Some (array (map (\<lambda>p. JObj [(''type'', JStr (pose_type p)),
           (''path'', JStr (mascot_path ?s (pose_type p)))]) (mascot c))))"
    by (simp add: cleanCourse_def cleanMascot_def mascot_courseToSave clean_pose_item
        rename_pose_def comp_def)
  show "\<exists>q\<in>set (mascot c). pose_type q = pose_type p \<and>
            (\<exists>b. pose_stored rt q = Some b \<and>
               zipCourse rt c (Some ids) (mascot_path ?s (pose_type p)) = Some (Binary b))"
    if p: "p \<in> set (mascot c)" and r: "pose_content rt p \<noteq> None" for p
  proof -
    let ?xs = "map (rename_pose ?s) (mascot c)"
    let ?z1 = "fold (store_step media_path (media_content rt)) (media (courseToSave c (Some ids)))
          (Map.empty(''curso.json'' \<mapsto> Text (Some (cleanCourse (courseToSave c (Some ids))))))"
    have in_xs: "rename_pose ?s p \<in> set ?xs" using p by simp
    have "pose_stored rt p \<noteq> None"
      using r by (auto simp: pose_stored_def split: sum.splits)
    then have res: "pose_stored rt (rename_pose ?s p) \<noteq> None"
      by (simp add: pose_stored_rename)
    from fold_store_last[where x = "rename_pose ?s p" and xs = ?xs and g = "pose_stored rt"
        and k = pose_path and z = ?z1, OF in_xs res]
    obtain y b where y: "y \<in> set ?xs" "pose_path y = pose_path (rename_pose ?s p)"
      "pose_stored rt y = Some b"
      and z: "zipCourse rt c (Some ids) (pose_path (rename_pose ?s p)) = Some (Binary b)"
      unfolding zipCourse_alt mascot_courseToSave by blast
    from y(1) obtain q where q: "q \<in> set (mascot c)" "y = rename_pose ?s q" by auto
    from y(2) q(2) have t: "pose_type q = pose_type p"
      by (simp add: pose_path_rename mascot_path_inj)
    from y(3) q(2) have st: "pose_stored rt q = Some b" by (simp add: pose_stored_rename)
    from z have "zipCourse rt c (Some ids) (mascot_path ?s (pose_type p)) = Some (Binary b)"
      by (simp add: pose_path_rename)
    with q(1) t st show ?thesis by blast
  qed
  show "zipCourse rt c (Some ids) n = zipCourse rt c None n" if "n \<noteq> ''curso.json''" for n
    unfolding zipCourse_alt mascot_courseToSave media_courseToSave
    by (intro fold_store_cong) (use that in simp)
qed

theorem filter_selects_modules_witness:
  "map mod_id (modules ex_course) = [''m1'', ''m2'', ''m3'']
   \<and> zipCourse ex_runtime ex_course (Some [''m2'']) ''curso.json'' =
          Some (Text (Some (cleanCourse (courseToSave ex_course (Some [''m2''])))))
   \<and> get_prop (cleanCourse (courseToSave ex_course (Some [''m2'']))) ''modules'' =
     Inr (Some (array [module_json (ex_module ''m2'')]))
   \<and> pose_content ex_runtime (mascot ex_course ! 0) \<noteq> None
   \<and> (\<exists>b. zipCourse ex_runtime ex_course (Some [''m2'']) ''mascot/Dino_2000__happy.png'' =
           Some (Binary b))
   \<and> ''mascot/Dino_2000__happy.png'' \<noteq> ''curso.json''
   \<and> zipCourse ex_runtime ex_course (Some [''m2'']) ''mascot/Dino_2000__happy.png'' =
       zipCourse ex_runtime ex_course None ''mascot/Dino_2000__happy.png''"
proof -
  have 0: "\<forall>m\<in>set (media ex_course). media_content ex_runtime m \<noteq> None \<longrightarrow>
      media_path m \<noteq> ''curso.json''" by code_simp
  have 1: "filter (\<lambda>m. mod_id m \<in> set [''m2'']) (modules ex_course) = [ex_module ''m2'']"
    by (simp add: ex_course_def ex_module_def)
  have 2: "map mod_id (modules ex_course) = [''m1'', ''m2'', ''m3'']"
    by (simp add: ex_course_def ex_module_def)
  have 3: "mascot ex_course ! 0 \<in> set (mascot ex_course)" by code_simp
  have 4: "''mascot/Dino_2000__happy.png'' \<noteq> ''curso.json''" by simp
  have 5: "pose_content ex_runtime (mascot ex_course ! 0) \<noteq> None" by code_simp
  have 6: "mascot_path (mascot_slug (mascotName (settings ex_course))) (pose_type (mascot ex_course ! 0))
     = ''mascot/Dino_2000__happy.png''" by code_simp
  note t = filter_selects_modules[OF 0, of "[''m2'']"]
  from t have a: "zipCourse ex_runtime ex_course (Some [''m2'']) ''curso.json'' =
          Some (Text (Some (cleanCourse (courseToSave ex_course (Some [''m2''])))))"
    by (elim conjE)
  from t have b: "get_prop (cleanCourse (courseToSave ex_course (Some [''m2'']))) ''modules'' =
     Inr (Some (array [module_json (ex_module ''m2'')]))"
    unfolding 1 by simp
  from t have "\<forall>p\<in>set (mascot ex_course). pose_content ex_runtime p \<noteq> None \<longrightarrow>
         (\<exists>q\<in>set (mascot ex_course). pose_type q = pose_type p \<and>
            (\<exists>b. pose_stored ex_runtime q = Some b \<and>
               zipCourse ex_runtime ex_course (Some [''m2''])
                 (mascot_path (mascot_slug (mascotName (settings ex_course))) (pose_type p)) =
               Some (Binary b)))"
    by (elim conjE)
  from this[rule_format, OF 3 5] have c: "\<exists>b. zipCourse ex_runtime ex_course (Some [''m2''])
       ''mascot/Dino_2000__happy.png'' = Some (Binary b)"
    unfolding 6 by (elim bexE exE conjE) (rule exI)
  from t 4 have d: "zipCourse ex_runtime ex_course (Some [''m2'']) ''mascot/Dino_2000__happy.png'' =
       zipCourse ex_runtime ex_course None ''mascot/Dino_2000__happy.png''"
    by (elim conjE) (erule allE, erule (1) mp)
  from 2 a b 5 c 4 d show ?thesis by (intro conjI)
qed

theorem filter_document_overwritten_counterexample:
  "map media_path (media ex_clash_course) = [''curso.json'']
   \<and> media_content ex_runtime (media ex_clash_course ! 0) = Some png_file
   \<and> zipCourse ex_runtime ex_clash_course (Some [''m2'']) ''curso.json'' = Some (Binary png_file)
   \<and> read_json ex_runtime (Binary png_file) = None"
  by code_simp



text \<open>
  C8. Adding a PNG file for a pose tag leaves exactly one pose of that tag, the new one,
  and leaves the poses of every other tag, and the rest of the course, as they were. If no
  two poses had the same tag before, no two have afterwards.
\<close>

theorem handleFileChange_replaces_pose:
  assumes "blob_type f = ''image/png''"
  shows "\<exists>p'. handleFileChange (Some f) url t (Some p) = Some p'
     \<and> filter (\<lambda>m. pose_type m = t) (mascot p') =
         [\<lparr>pose_type = t, pose_path = ''mascot/'' @ t @ ''.png'', pose_blobUrl = url,
           pose_file = Some f\<rparr>]
     \<and> filter (\<lambda>m. pose_type m \<noteq> t) (mascot p') = filter (\<lambda>m. pose_type m \<noteq> t) (mascot p)
     \<and> (distinct (map pose_type (mascot p)) \<longrightarrow> distinct (map pose_type (mascot p')))
     \<and> p'\<lparr>mascot := mascot p\<rparr> = p"
proof -
  let ?new = "\<lparr>pose_type = t, pose_path = ''mascot/'' @ t @ ''.png'', pose_blobUrl = url,
           pose_file = Some f\<rparr>"
  let ?p' = "p\<lparr>mascot := filter (\<lambda>m. pose_type m \<noteq> t) (mascot p) @ [?new]\<rparr>"
  have h: "handleFileChange (Some f) url t (Some p) = Some ?p'"
    using assms by (simp add: handleFileChange_def Let_def)
  have a: "filter (\<lambda>m. pose_type m = t) (mascot ?p') = [?new]"
    by simp
  have b: "filter (\<lambda>m. pose_type m \<noteq> t) (mascot ?p') = filter (\<lambda>m. pose_type m \<noteq> t) (mascot p)"
    by simp
  have c: "distinct (map pose_type (mascot p)) \<longrightarrow> distinct (map pose_type (mascot ?p'))"
    by (auto simp: distinct_map_filter)
  have d: "?p'\<lparr>mascot := mascot p\<rparr> = p" by simp
  from h a b c d show ?thesis by (intro exI[of _ ?p'] conjI)
qed

theorem handleFileChange_replaces_pose_witness:
  "blob_type png_file = ''image/png''
   \<and> distinct (map pose_type (mascot ex_course))
   \<and> (\<exists>p'. handleFileChange (Some png_file) ''blob:new'' ''happy'' (Some ex_course) = Some p'
         \<and> map pose_type (mascot p') = [''sad'', ''happy'']
         \<and> distinct (map pose_type (mascot p')))"
proof -
  have 1: "blob_type png_file = ''image/png''" by code_simp
  have 2: "distinct (map pose_type (mascot ex_course))" by code_simp
  have 3: "map pose_type (filter (\<lambda>m. pose_type m \<noteq> ''happy'') (mascot ex_course)) = [''sad'']"
    by code_simp
  from handleFileChange_replaces_pose[OF 1, of "''blob:new''" "''happy''" ex_course]
  obtain p' where h: "handleFileChange (Some png_file) ''blob:new'' ''happy'' (Some ex_course) = Some p'"
    and a: "filter (\<lambda>m. pose_type m = ''happy'') (mascot p') =
         [\<lparr>pose_type = ''happy'', pose_path = ''mascot/'' @ ''happy'' @ ''.png'',
           pose_blobUrl = ''blob:new'', pose_file = Some png_file\<rparr>]"
    and b: "filter (\<lambda>m. pose_type m \<noteq> ''happy'') (mascot p') =
            filter (\<lambda>m. pose_type m \<noteq> ''happy'') (mascot ex_course)"
    and c: "distinct (map pose_type (mascot ex_course)) \<longrightarrow> distinct (map pose_type (mascot p'))"
    by (elim exE conjE)
  from c 2 have d: "distinct (map pose_type (mascot p'))" by (rule mp)
  have "handleFileChange (Some png_file) ''blob:new'' ''happy'' (Some ex_course) =
      Some (ex_course\<lparr>mascot := filter (\<lambda>m. pose_type m \<noteq> ''happy'') (mascot ex_course) @
         [\<lparr>pose_type = ''happy'', pose_path = ''mascot/happy.png'',
           pose_blobUrl = ''blob:new'', pose_file = Some png_file\<rparr>]\<rparr>)"
    using 1 by (simp add: handleFileChange_def Let_def)
  with h have "map pose_type (mascot p') = [''sad'', ''happy'']"
    using 3 by auto
  with h d have "\<exists>p'. handleFileChange (Some png_file) ''blob:new'' ''happy'' (Some ex_course) = Some p'
         \<and> map pose_type (mascot p') = [''sad'', ''happy'']
         \<and> distinct (map pose_type (mascot p'))"
    by (intro exI conjI)
  with 1 2 show ?thesis by (intro conjI)
qed

text \<open>
  C10. For a document whose \<open>media\<close> and \<open>mascot\<close> are arrays of asset records, unpacking
  returns the document with both arrays replaced by arrays of the same length, whose
  \<open>i\<close>-th record is the declared one, with a new \<open>blobUrl\<close> when its path names an
  entry of the archive and unchanged otherwise.
\<close>

theorem unzip_preserves_records:
  assumes "zip_file z ''curso.json'' = Some e" and "read_json rt e = Some (JObj ps)"
    and "map_of ps ''media'' = Some (JArr ms [])" and "map_of ps ''mascot'' = Some (JArr qs [])"
    and "\<forall>v\<in>set ms. is_record v" and "\<forall>v\<in>set qs. is_record v"
  shows "\<exists>ms' qs'. unzipCourse rt z =
        Inr (JObj (AList.update ''mascot'' (array qs') (AList.update ''media'' (array ms') ps)))
     \<and> length ms' = length ms \<and> length qs' = length qs
     \<and> (\<forall>i<length ms. ms' ! i = spec_rehydrated rt z i (ms ! i))
     \<and> (\<forall>j<length qs. qs' ! j = spec_rehydrated rt z (length ms + j) (qs ! j))"
proof -
  let ?ms = "spec_rehydrated_list rt z 0 ms"
  let ?qs = "spec_rehydrated_list rt z (length ms) qs"
  have u: "unzipCourse rt z =
        Inr (JObj (AList.update ''mascot'' (array ?qs) (AList.update ''media'' (array ?ms) ps)))"
    by (rule unzip_records[OF assms])
  have l: "length ?ms = length ms" "length ?qs = length qs"
    by (simp_all add: length_rehydrated_list)
  have a: "\<forall>i<length ms. ?ms ! i = spec_rehydrated rt z i (ms ! i)"
    by (simp add: nth_rehydrated_list)
  have b: "\<forall>j<length qs. ?qs ! j = spec_rehydrated rt z (length ms + j) (qs ! j)"
    by (simp add: nth_rehydrated_list)
  from u l a b show ?thesis by (intro exI[of _ ?ms] exI[of _ ?qs] conjI)
qed

lemma same_off_refl: "same_off c h h"
  by (simp add: same_off_def)

lemma same_off_trans: "same_off c h h' \<Longrightarrow> same_off c h' h'' \<Longrightarrow> same_off c h h''"
  by (auto simp: same_off_def)

lemma same_off_append: "same_off c h (h @ zs)"
  by (simp add: same_off_def nth_append)

lemma same_off_update: "same_off c h (h[c := v])"
  by (simp add: same_off_def)

section \<open>Packing over the store\<close>

lemma deref_same_off: "same_off c h h' \<Longrightarrow> a \<noteq> c \<Longrightarrow> deref h a = Some v \<Longrightarrow> deref h' a = Some v"
  by (auto simp: same_off_def deref_def split: if_splits)

lemma deref_less: "deref h a = Some v \<Longrightarrow> a < length h"
  by (simp add: deref_def split: if_splits)

lemma all_at_less: "all_at p h as = Some xs \<Longrightarrow> \<forall>a\<in>set as. a < length h"
  by (induction as arbitrary: xs) (auto split: Option.bind_splits dest: deref_less)

lemma all_at_same_off:
  "same_off c h h' \<Longrightarrow> c \<notin> set as \<Longrightarrow> all_at p h as = Some xs \<Longrightarrow> all_at p h' as = Some xs"
proof (induction as arbitrary: xs)
  case Nil
  then show ?case by simp
next
  case (Cons a as)
  from Cons.prems(3) obtain v x ys where
    v: "deref h a = Some v" "p v = Some x" "all_at p h as = Some ys" "xs = x # ys"
    by (auto split: Option.bind_splits)
  from Cons.prems(2) have "a \<noteq> c" "c \<notin> set as" by auto
  with Cons.prems(1) v have "deref h' a = Some v" "all_at p h' as = Some ys"
    by (auto intro: deref_same_off Cons.IH)
  with v show ?case by simp
qed

lemma array_at_same_off: "same_off c h h' \<Longrightarrow> a \<noteq> c \<Longrightarrow> array_at h a = Some xs \<Longrightarrow> array_at h' a = Some xs"
  by (auto simp: array_at_def split: option.splits obj.splits dest: deref_same_off)

lemma course_at_same_off: "same_off c h h' \<Longrightarrow> a \<noteq> c \<Longrightarrow> course_at h a = Some x \<Longrightarrow> course_at h' a = Some x"
  by (auto simp: course_at_def split: option.splits obj.splits dest: deref_same_off)

lemma settings_at_same_off: "same_off c h h' \<Longrightarrow> a \<noteq> c \<Longrightarrow> settings_at h a = Some x \<Longrightarrow> settings_at h' a = Some x"
  by (auto simp: settings_at_def split: option.splits obj.splits dest: deref_same_off)

lemma array_at_less: "array_at h a = Some xs \<Longrightarrow> a < length h"
  by (auto simp: array_at_def split: option.splits dest: deref_less)

lemma course_at_less: "course_at h a = Some x \<Longrightarrow> a < length h"
  by (auto simp: course_at_def split: option.splits dest: deref_less)

lemma settings_at_less: "settings_at h a = Some x \<Longrightarrow> a < length h"
  by (auto simp: settings_at_def split: option.splits dest: deref_less)

lemma deref_snoc: "deref (h @ [v]) (length h) = Some v"
  by (simp add: deref_def)

lemma module_at_as_module: "module_at h a = Option.bind (deref h a) as_module"
  by (simp add: module_at_def as_module_def split: option.splits obj.splits)

lemma filter_ids_spec:
  "all_at as_module h ms = Some mods \<Longrightarrow>
   \<exists>fs. filter_ids h ids ms = Some fs \<and>
        all_at as_module h fs = Some (filter (\<lambda>m. mod_id m \<in> set ids) mods) \<and> set fs \<subseteq> set ms"
proof (induction ms arbitrary: mods)
  case Nil
  then show ?case by simp
next
  case (Cons a ms)
  from Cons.prems obtain v m ys where
    v: "deref h a = Some v" "as_module v = Some m" "all_at as_module h ms = Some ys" "mods = m # ys"
    by (auto split: Option.bind_splits)
  from Cons.IH[OF v(3)] obtain fs where
    fs: "filter_ids h ids ms = Some fs"
    "all_at as_module h fs = Some (filter (\<lambda>m. mod_id m \<in> set ids) ys)" "set fs \<subseteq> set ms"
    by blast
  have ma: "module_at h a = Some m" using v by (simp add: module_at_as_module)
  show ?case
  proof (cases "mod_id m \<in> set ids")
    case True
    with ma fs v show ?thesis by auto
  next
    case False
    with ma fs v show ?thesis by auto
  qed
qed

lemma map_alloc_spec:
  assumes "all_at q h as = Some xs"
    and "\<And>v x. q v = Some x \<Longrightarrow> \<exists>v'. f v = Some v' \<and> p v' = Some (g x)"
  shows "\<exists>bs zs. map_alloc f as h = Some (bs, h @ zs) \<and> all_at p (h @ zs) bs = Some (map g xs) \<and>
           (\<forall>b\<in>set bs. length h \<le> b)"
  using assms(1)
proof (induction as arbitrary: h xs)
  case Nil
  then show ?case by simp
next
  case (Cons a as)
  from Cons.prems obtain v x ys where
    v: "deref h a = Some v" "q v = Some x" "all_at q h as = Some ys" "xs = x # ys"
    by (auto split: Option.bind_splits)
  from assms(2)[OF v(2)] obtain v' where v': "f v = Some v'" "p v' = Some (g x)" by blast
  from all_at_less[OF v(3)] have "length h \<notin> set as" by auto
  with v(3) have "all_at q (h @ [v']) as = Some ys"
    by (intro all_at_same_off[OF same_off_append]) auto
  from Cons.IH[OF this] obtain bs zs where
    r: "map_alloc f as (h @ [v']) = Some (bs, (h @ [v']) @ zs)"
    "all_at p ((h @ [v']) @ zs) bs = Some (map g ys)" "\<forall>b\<in>set bs. length (h @ [v']) \<le> b"
    by blast
  have d: "deref ((h @ [v']) @ zs) (length h) = Some v'"
    by (simp add: deref_def nth_append)
  have 1: "map_alloc f (a # as) h = Some (length h # bs, h @ (v' # zs))"
    using v v' r(1) by (simp add: alloc_def)
  have 2: "all_at p (h @ (v' # zs)) (length h # bs) = Some (map g xs)"
    using d r(2) v' v(4) by simp
  have 3: "\<forall>b\<in>set (length h # bs). length h \<le> b"
    using r(3) by auto
  from 1 2 3 show ?case by blast
qed

lemma set_modules_at:
  assumes "course_at h c = Some (i, s, mo, me, ma)"
  shows "set_modules c v h = Some (h[c := CourseObj i s v me ma])"
    and "course_at (h[c := CourseObj i s v me ma]) c = Some (i, s, v, me, ma)"
  using assms
  by (auto simp: set_modules_def course_at_def deref_def split: option.splits obj.splits if_splits)

lemma set_mascot_at:
  assumes "course_at h c = Some (i, s, mo, me, ma)"
  shows "set_mascot c v h = Some (h[c := CourseObj i s mo me v])"
    and "course_at (h[c := CourseObj i s mo me v]) c = Some (i, s, mo, me, v)"
  using assms
  by (auto simp: set_mascot_def course_at_def deref_def split: option.splits obj.splits if_splits)

lemma course_at_snoc: "course_at (h @ [CourseObj i s mo me ma]) (length h) = Some (i, s, mo, me, ma)"
  by (simp add: course_at_def deref_def)

lemma array_at_snoc: "array_at (h @ [ArrayObj xs]) (length h) = Some xs"
  by (simp add: array_at_def deref_def)

lemma copy_and_filter_spec:
  assumes ca: "course_at h a = Some (i, s, mo, me, ma)"
    and am: "array_at h mo = Some ms"
    and mm: "all_at as_module h ms = Some mods"
  shows "\<exists>h1 mo' fs. copy_and_filter h a ids = Some (h1, length h) \<and> same_off (length h) h h1 \<and>
      length h < length h1 \<and>
      course_at h1 (length h) = Some (i, s, mo', me, ma) \<and> mo' \<noteq> length h \<and>
      array_at h1 mo' = Some fs \<and> length h \<notin> set fs \<and>
      all_at as_module h1 fs =
        Some (case ids of Some l \<Rightarrow> filter (\<lambda>m. mod_id m \<in> set l) mods | None \<Rightarrow> mods)"
proof -
  let ?n = "length h"
  let ?v = "CourseObj i s mo me ma"
  let ?h0 = "h @ [?v]"
  from ca have d: "deref h a = Some ?v"
    by (auto simp: course_at_def split: option.splits obj.splits)
  have mo_n: "mo < ?n" by (rule array_at_less[OF am])
  have ms_n: "?n \<notin> set ms" using all_at_less[OF mm] by auto
  have c0: "course_at ?h0 ?n = Some (i, s, mo, me, ma)" by (rule course_at_snoc)
  have am0: "array_at ?h0 mo = Some ms"
    using am mo_n by (intro array_at_same_off[OF same_off_append]) auto
  have mm0: "all_at as_module ?h0 ms = Some mods"
    using mm ms_n by (intro all_at_same_off[OF same_off_append]) auto
  show ?thesis
  proof (cases ids)
    case None
    let ?h1 = "?h0[?n := CourseObj i s mo me ma]"
    have h1: "?h1 = ?h0" by simp
    have "copy_and_filter h a ids = Some (?h1, ?n)"
      using None d ca set_modules_at(1)[OF c0, of mo]
      by (simp add: copy_and_filter_def alloc_def)
    moreover have "same_off ?n h ?h1" unfolding h1 by (rule same_off_append)
    moreover have "course_at ?h1 ?n = Some (i, s, mo, me, ma)" unfolding h1 by (rule c0)
    moreover have "array_at ?h1 mo = Some ms" unfolding h1 by (rule am0)
    moreover have "all_at as_module ?h1 ms = Some mods" unfolding h1 by (rule mm0)
    ultimately show ?thesis using None mo_n ms_n
      by (intro exI[of _ ?h1] exI[of _ mo] exI[of _ ms]) simp
  next
    case (Some l)
    from filter_ids_spec[OF mm0, of l] obtain fs where
      fs: "filter_ids ?h0 l ms = Some fs"
      "all_at as_module ?h0 fs = Some (filter (\<lambda>m. mod_id m \<in> set l) mods)" "set fs \<subseteq> set ms"
      by blast
    let ?h0' = "?h0 @ [ArrayObj fs]"
    let ?h1 = "?h0'[?n := CourseObj i s (Suc ?n) me ma]"
    have c0': "course_at ?h0' ?n = Some (i, s, mo, me, ma)"
      using c0 by (simp add: course_at_def deref_def nth_append)
    have "\<forall>x\<in>set fs. x < ?n" using fs(3) all_at_less[OF mm] by blast
    then have fs_n: "?n \<notin> set fs" "Suc ?n \<notin> set fs" by auto
    have so: "same_off ?n ?h0 ?h1"
      by (rule same_off_trans[OF same_off_append same_off_update])
    have "copy_and_filter h a ids = Some (?h1, ?n)"
      using Some d ca am0 fs(1) set_modules_at(1)[OF c0', of "Suc ?n"]
      by (simp add: copy_and_filter_def alloc_def)
    moreover have "same_off ?n h ?h1"
      by (rule same_off_trans[OF same_off_append so])
    moreover have "course_at ?h1 ?n = Some (i, s, Suc ?n, me, ma)"
      by (rule set_modules_at(2)[OF c0'])
    moreover have "array_at ?h1 (Suc ?n) = Some fs"
      by (simp add: array_at_def deref_def nth_append)
    moreover have "all_at as_module ?h1 fs = Some (filter (\<lambda>m. mod_id m \<in> set l) mods)"
      using fs(2) fs_n(1) by (intro all_at_same_off[OF so]) auto
    ultimately show ?thesis using Some fs_n
      by (intro exI[of _ ?h1] exI[of _ "Suc ?n"] exI[of _ fs]) simp
  qed
qed

lemma renamed_spec: "as_pose v = Some x \<Longrightarrow> \<exists>v'. renamed slug v = Some v' \<and> as_pose v' = Some (rename_pose slug x)"
  by (auto simp: as_pose_def renamed_def split: obj.splits)

lemma rest_of_media: "as_media v = Some x \<Longrightarrow> \<exists>v'. rest_of v = Some v' \<and> as_rest v' = Some (rest_fields (media_fields x))"
  by (auto simp: as_media_def rest_of_def as_rest_def split: obj.splits)

lemma rest_of_pose: "as_pose v = Some x \<Longrightarrow> \<exists>v'. rest_of v = Some v' \<and> as_rest v' = Some (rest_fields (pose_fields x))"
  by (auto simp: as_pose_def rest_of_def as_rest_def split: obj.splits)

lemma rename_mascots_spec:
  assumes ca: "course_at h a = Some (i, s, mo, me, ma)"
    and sa: "settings_at h s = Some st"
    and cc: "course_at h c = Some (i', s', mo', me', ma')"
    and ap: "array_at h ma' = Some ps"
    and pp: "all_at as_pose h ps = Some poses"
  shows "\<exists>h2 ma2 ps'. rename_mascots h a c = Some h2 \<and> same_off c h h2 \<and>
      course_at h2 c = Some (i', s', mo', me', ma2) \<and> ma2 \<noteq> c \<and>
      array_at h2 ma2 = Some ps' \<and> c \<notin> set ps' \<and>
      all_at as_pose h2 ps' = Some (map (rename_pose (mascot_slug (mascotName st))) poses)"
proof -
  let ?slug = "mascot_slug (mascotName st)"
  have c_n: "c < length h" by (rule course_at_less[OF cc])
  from map_alloc_spec[where f = "renamed ?slug" and p = as_pose and g = "rename_pose ?slug",
      OF pp renamed_spec]
  obtain bs zs where
    r: "map_alloc (renamed ?slug) ps h = Some (bs, h @ zs)"
    "all_at as_pose (h @ zs) bs = Some (map (rename_pose ?slug) poses)"
    "\<forall>b\<in>set bs. length h \<le> b"
    by blast
  let ?h1 = "(h @ zs) @ [ArrayObj bs]"
  let ?ma2 = "length (h @ zs)"
  let ?h2 = "?h1[c := CourseObj i' s' mo' me' ?ma2]"
  have cc1: "course_at ?h1 c = Some (i', s', mo', me', ma')"
    using cc c_n by (simp add: course_at_def deref_def nth_append)
  have bs_c: "c \<notin> set bs" using r(3) c_n by auto
  have bs_l: "?ma2 \<notin> set bs" using all_at_less[OF r(2)] by auto
  have "rename_mascots h a c = Some ?h2"
    using ca sa cc ap r(1) set_mascot_at(1)[OF cc1, of ?ma2]
    by (simp add: rename_mascots_def alloc_def)
  moreover have so: "same_off c h ?h2"
    by (rule same_off_trans[OF same_off_append[of c h "zs @ [ArrayObj bs]"]])
       (simp add: same_off_update)
  moreover have "course_at ?h2 c = Some (i', s', mo', me', ?ma2)"
    by (rule set_mascot_at(2)[OF cc1])
  moreover have "?ma2 \<noteq> c" using c_n by simp
  moreover have "array_at ?h2 ?ma2 = Some bs"
    using c_n by (simp add: array_at_def deref_def nth_append)
  moreover have "all_at as_pose ?h2 bs = Some (map (rename_pose ?slug) poses)"
    using r(2) bs_c
    by (intro all_at_same_off[OF same_off_trans[OF same_off_append same_off_update]]) auto
  ultimately show ?thesis using bs_c
    by (intro exI[of _ ?h2] exI[of _ ?ma2] exI[of _ bs]) simp
qed

lemma all_at_append: "all_at p h as = Some xs \<Longrightarrow> all_at p (h @ zs) as = Some xs"
  using all_at_less[of p h as xs]
  by (intro all_at_same_off[OF same_off_append[of "length (h @ zs)"]]) auto

lemma array_at_append: "array_at h a = Some xs \<Longrightarrow> array_at (h @ zs) a = Some xs"
  using array_at_less[of h a xs]
  by (intro array_at_same_off[OF same_off_append[of "length (h @ zs)"]]) auto

lemma course_at_append: "course_at h a = Some x \<Longrightarrow> course_at (h @ zs) a = Some x"
  using course_at_less[of h a x]
  by (intro course_at_same_off[OF same_off_append[of "length (h @ zs)"]]) auto

lemma clean_copy_spec:
  assumes cc: "course_at h c = Some (i, s, mo, me, ma)"
    and ae: "array_at h me = Some es"
    and em: "all_at as_media h es = Some meds"
    and ap: "array_at h ma = Some ps"
    and pp: "all_at as_pose h ps = Some poses"
  shows "\<exists>zs clean cmA cpA cm cp. clean_copy h c = Some (h @ zs, clean) \<and> length h \<le> clean \<and>
      course_at (h @ zs) clean = Some (i, s, mo, cmA, cpA) \<and>
      array_at (h @ zs) cmA = Some cm \<and>
      all_at as_rest (h @ zs) cm = Some (map (\<lambda>m. rest_fields (media_fields m)) meds) \<and>
      array_at (h @ zs) cpA = Some cp \<and>
      all_at as_rest (h @ zs) cp = Some (map (\<lambda>p. rest_fields (pose_fields p)) poses)"
proof -
  from map_alloc_spec[where f = rest_of and p = as_rest and g = "\<lambda>m. rest_fields (media_fields m)",
      OF em rest_of_media]
  obtain cm z1 where
    r1: "map_alloc rest_of es h = Some (cm, h @ z1)"
    "all_at as_rest (h @ z1) cm = Some (map (\<lambda>m. rest_fields (media_fields m)) meds)"
    by blast
  let ?h1 = "h @ z1"
  let ?cmA = "length ?h1"
  let ?h2 = "?h1 @ [ArrayObj cm]"
  have ap2: "array_at ?h2 ma = Some ps"
    using array_at_append[OF ap, of "z1 @ [ArrayObj cm]"] by simp
  have pp2: "all_at as_pose ?h2 ps = Some poses"
    using all_at_append[OF pp, of "z1 @ [ArrayObj cm]"] by simp
  from map_alloc_spec[where f = rest_of and p = as_rest and g = "\<lambda>p. rest_fields (pose_fields p)",
      OF pp2 rest_of_pose]
  obtain cp z2 where
    r2: "map_alloc rest_of ps ?h2 = Some (cp, ?h2 @ z2)"
    "all_at as_rest (?h2 @ z2) cp = Some (map (\<lambda>p. rest_fields (pose_fields p)) poses)"
    by blast
  let ?h3 = "?h2 @ z2"
  let ?cpA = "length ?h3"
  let ?h4 = "?h3 @ [ArrayObj cp]"
  let ?clean = "length ?h4"
  let ?h5 = "?h4 @ [CourseObj i s mo ?cmA ?cpA]"
  let ?zs = "z1 @ [ArrayObj cm] @ z2 @ [ArrayObj cp] @ [CourseObj i s mo ?cmA ?cpA]"
  have eq: "?h5 = h @ ?zs" by simp
  have 1: "clean_copy h c = Some (?h5, ?clean)"
    using cc ae r1(1) ap2 r2(1) by (simp add: clean_copy_def alloc_def)
  have 2: "length h \<le> ?clean" by simp
  have 3: "course_at ?h5 ?clean = Some (i, s, mo, ?cmA, ?cpA)"
    by (rule course_at_snoc)
  have "array_at ?h2 ?cmA = Some cm" by (rule array_at_snoc)
  from array_at_append[OF this, of "z2 @ [ArrayObj cp] @ [CourseObj i s mo ?cmA ?cpA]"]
  have 4: "array_at ?h5 ?cmA = Some cm" by simp
  from all_at_append[OF r1(2), of "[ArrayObj cm] @ z2 @ [ArrayObj cp] @ [CourseObj i s mo ?cmA ?cpA]"]
  have 5: "all_at as_rest ?h5 cm = Some (map (\<lambda>m. rest_fields (media_fields m)) meds)" by simp
  have "array_at ?h4 ?cpA = Some cp" by (rule array_at_snoc)
  from array_at_append[OF this, of "[CourseObj i s mo ?cmA ?cpA]"]
  have 6: "array_at ?h5 ?cpA = Some cp" .
  from all_at_append[OF r2(2), of "[ArrayObj cp] @ [CourseObj i s mo ?cmA ?cpA]"]
  have 7: "all_at as_rest ?h5 cp = Some (map (\<lambda>p. rest_fields (pose_fields p)) poses)" by simp
  from 1 2 3 4 5 6 7 show ?thesis
    unfolding eq
    by (intro exI[of _ ?zs] exI[of _ ?clean] exI[of _ ?cmA] exI[of _ ?cpA] exI[of _ cm] exI[of _ cp] conjI)
qed

lemma take_same_off: "same_off (length h) h h' \<Longrightarrow> take (length h) h' = h"
  by (rule nth_equalityI) (auto simp: same_off_def)

text \<open>
  C9. Packing a course that lies in the store succeeds and leaves every object that was in
  the store as it was, so the address of the input still denotes the same course. The
  copy and the clean course are new objects; the copy denotes the course with modules
  filtered and poses renamed, and the clean course is written as the document of
  \<open>zipCourse\<close>.
\<close>

theorem zipCourse_store_keeps_input:
  assumes "course_of h a = Some c"
  shows "\<exists>h' cts clean. zipCourse_store h a ids = Some (h', cts, clean)
     \<and> take (length h) h' = h
     \<and> course_of h' a = Some c
     \<and> length h \<le> cts \<and> length h \<le> clean
     \<and> course_of h' cts = Some (courseToSave c ids)
     \<and> document_of h' clean = Some (cleanCourse (courseToSave c ids))"
proof -
  let ?n = "length h"
  from assms obtain i s mo me ma st ms mods es meds ps poses where
    ca: "course_at h a = Some (i, s, mo, me, ma)" and sa: "settings_at h s = Some st"
    and am: "array_at h mo = Some ms" and mm: "all_at as_module h ms = Some mods"
    and ae: "array_at h me = Some es" and em: "all_at as_media h es = Some meds"
    and ap: "array_at h ma = Some ps" and pp: "all_at as_pose h ps = Some poses"
    and c: "c = \<lparr>course_id = i, settings = st, modules = mods, media = meds, mascot = poses\<rparr>"
    by (auto simp: course_of_def split: Option.bind_splits)
  have lt: "a \<noteq> ?n" "s \<noteq> ?n" "mo \<noteq> ?n" "me \<noteq> ?n" "ma \<noteq> ?n"
    using course_at_less[OF ca] settings_at_less[OF sa] array_at_less[OF am] array_at_less[OF ae]
      array_at_less[OF ap] by auto
  have nin: "?n \<notin> set ms" "?n \<notin> set es" "?n \<notin> set ps"
    using all_at_less[OF mm] all_at_less[OF em] all_at_less[OF pp] by auto
  let ?mods' = "case ids of Some l \<Rightarrow> filter (\<lambda>m. mod_id m \<in> set l) mods | None \<Rightarrow> mods"
  let ?slug = "mascot_slug (mascotName st)"
  from copy_and_filter_spec[OF ca am mm, of ids] obtain h1 mo' fs where
    p1: "copy_and_filter h a ids = Some (h1, ?n)" and so1: "same_off ?n h h1"
    and n1: "?n < length h1" and c1: "course_at h1 ?n = Some (i, s, mo', me, ma)"
    and mo': "mo' \<noteq> ?n" and af: "array_at h1 mo' = Some fs" and fn: "?n \<notin> set fs"
    and mf: "all_at as_module h1 fs = Some ?mods'"
    by blast
  have ca1: "course_at h1 a = Some (i, s, mo, me, ma)"
    by (rule course_at_same_off[OF so1 lt(1) ca])
  have sa1: "settings_at h1 s = Some st"
    by (rule settings_at_same_off[OF so1 lt(2) sa])
  have ap1: "array_at h1 ma = Some ps"
    by (rule array_at_same_off[OF so1 lt(5) ap])
  have pp1: "all_at as_pose h1 ps = Some poses"
    by (rule all_at_same_off[OF so1 nin(3) pp])
  from rename_mascots_spec[OF ca1 sa1 c1 ap1 pp1] obtain h2 ma2 ps' where
    p2: "rename_mascots h1 a ?n = Some h2" and so2: "same_off ?n h1 h2"
    and c2: "course_at h2 ?n = Some (i, s, mo', me, ma2)" and ma2: "ma2 \<noteq> ?n"
    and ap2: "array_at h2 ma2 = Some ps'" and pn: "?n \<notin> set ps'"
    and pp2: "all_at as_pose h2 ps' = Some (map (rename_pose ?slug) poses)"
    by blast
  have so12: "same_off ?n h h2" by (rule same_off_trans[OF so1 so2])
  have ae2: "array_at h2 me = Some es"
    by (rule array_at_same_off[OF so12 lt(4) ae])
  have em2: "all_at as_media h2 es = Some meds"
    by (rule all_at_same_off[OF so12 nin(2) em])
  from clean_copy_spec[OF c2 ae2 em2 ap2 pp2] obtain zs clean cmA cpA cm cp where
    p3: "clean_copy h2 ?n = Some (h2 @ zs, clean)" and cl: "length h2 \<le> clean"
    and c3: "course_at (h2 @ zs) clean = Some (i, s, mo', cmA, cpA)"
    and acm: "array_at (h2 @ zs) cmA = Some cm"
    and rcm: "all_at as_rest (h2 @ zs) cm = Some (map (\<lambda>m. rest_fields (media_fields m)) meds)"
    and acp: "array_at (h2 @ zs) cpA = Some cp"
    and rcp: "all_at as_rest (h2 @ zs) cp =
        Some (map (\<lambda>p. rest_fields (pose_fields p)) (map (rename_pose ?slug) poses))"
    by blast
  let ?h3 = "h2 @ zs"
  have so23: "same_off ?n h2 ?h3" by (rule same_off_append)
  have so3: "same_off ?n h ?h3" by (rule same_off_trans[OF so12 so23])
  have so13: "same_off ?n h1 ?h3" by (rule same_off_trans[OF so2 so23])
  have run: "zipCourse_store h a ids = Some (?h3, ?n, clean)"
    using p1 p2 p3 by (simp add: zipCourse_store_def)
  have frame: "take ?n ?h3 = h" by (rule take_same_off[OF so3])
  have sa3: "settings_at ?h3 s = Some st"
    by (rule settings_at_same_off[OF so3 lt(2) sa])
  have ae3: "array_at ?h3 me = Some es" by (rule array_at_same_off[OF so3 lt(4) ae])
  have em3: "all_at as_media ?h3 es = Some meds" by (rule all_at_same_off[OF so3 nin(2) em])
  have input: "course_of ?h3 a = Some c"
    using course_at_same_off[OF so3 lt(1) ca] sa3 array_at_same_off[OF so3 lt(3) am]
      all_at_same_off[OF so3 nin(1) mm] ae3 em3 array_at_same_off[OF so3 lt(5) ap]
      all_at_same_off[OF so3 nin(3) pp]
    by (simp add: course_of_def c)
  have af3: "array_at ?h3 mo' = Some fs" by (rule array_at_same_off[OF so13 mo' af])
  have mf3: "all_at as_module ?h3 fs = Some ?mods'" by (rule all_at_same_off[OF so13 fn mf])
  have cts: "courseToSave c ids =
      \<lparr>course_id = i, settings = st, modules = ?mods', media = meds,
       mascot = map (rename_pose ?slug) poses\<rparr>"
    by (simp add: courseToSave_def c split: option.splits)
  have copy: "course_of ?h3 ?n = Some (courseToSave c ids)"
    using course_at_append[OF c2, of zs] sa3 af3 mf3 ae3 em3 array_at_append[OF ap2, of zs]
      all_at_append[OF pp2, of zs]
    by (simp add: course_of_def cts)
  have doc: "document_of ?h3 clean = Some (cleanCourse (courseToSave c ids))"
    using c3 sa3 af3 mf3 acm rcm acp rcp
    by (simp add: document_of_def cts cleanCourse_def cleanMedia_def cleanMascot_def comp_def)
  have fresh: "?n \<le> clean" using cl so12 by (simp add: same_off_def)
  from run frame input fresh copy doc show ?thesis
    by (intro exI[of _ ?h3] exI[of _ ?n] exI[of _ clean] conjI) simp_all
qed

theorem zipCourse_store_keeps_input_witness:
  "course_of ex_store 0 = Some ex_course
   \<and> (\<exists>h' cts clean. zipCourse_store ex_store 0 (Some [''m2'']) = Some (h', cts, clean)
        \<and> take (length ex_store) h' = ex_store
        \<and> course_of h' 0 = Some ex_course
        \<and> document_of h' clean = Some (cleanCourse (courseToSave ex_course (Some [''m2'']))))"
proof -
  have 1: "course_of ex_store 0 = Some ex_course" by code_simp
  from zipCourse_store_keeps_input[OF 1, of "Some [''m2'']"]
  have "\<exists>h' cts clean. zipCourse_store ex_store 0 (Some [''m2'']) = Some (h', cts, clean)
        \<and> take (length ex_store) h' = ex_store
        \<and> course_of h' 0 = Some ex_course
        \<and> document_of h' clean = Some (cleanCourse (courseToSave ex_course (Some [''m2''])))"
    by (elim exE conjE) (intro exI conjI)
  with 1 show ?thesis by (rule conjI)
qed

theorem unzip_preserves_records_witness:
  "zip_file (zipCourse ex_runtime ex_course None) ''curso.json'' =
      Some (Text (Some (cleanCourse (courseToSave ex_course None))))
   \<and> map record_path (cleanMedia (courseToSave ex_course None)) =
       [Some ''media/foto.png'', Some ''media/som.mp3'']
   \<and> (\<exists>ms' qs'. unzipCourse ex_runtime (zipCourse ex_runtime ex_course None) =
        Inr (JObj (AList.update ''mascot'' (array qs') (AList.update ''media'' (array ms')
          [(''id'', JStr ''course_1''), (''settings'', settings_json ex_settings),
           (''modules'', array (map module_json (modules ex_course))),
           (''media'', array (cleanMedia (courseToSave ex_course None))),
           (''mascot'', array (cleanMascot (courseToSave ex_course None)))])))
        \<and> length ms' = 2 \<and> length qs' = 2
        \<and> get_prop (ms' ! 0) ''blobUrl'' = Inr (Some (JStr ''blob:''))
        \<and> ms' ! 1 = cleanMedia (courseToSave ex_course None) ! 1
        \<and> get_prop (qs' ! 1) ''blobUrl'' = Inr (Some (JStr ''blob:xxx'')))"
proof -
  let ?z = "zipCourse ex_runtime ex_course None"
  let ?ms = "cleanMedia (courseToSave ex_course None)"
  let ?qs = "cleanMascot (courseToSave ex_course None)"
  let ?ps = "[(''id'', JStr ''course_1''), (''settings'', settings_json ex_settings),
           (''modules'', array (map module_json (modules ex_course))),
           (''media'', array ?ms), (''mascot'', array ?qs)]"
  have 0: "zip_file ?z ''curso.json'' = Some (Text (Some (cleanCourse (courseToSave ex_course None))))"
    by code_simp
  have 1: "zip_file ?z ''curso.json'' = Some (Text (Some (JObj ?ps)))"
    by code_simp
  have 2: "read_json ex_runtime (Text (Some (JObj ?ps))) = Some (JObj ?ps)"
    by (simp add: read_json_def)
  have 3: "map_of ?ps ''media'' = Some (JArr ?ms [])" "map_of ?ps ''mascot'' = Some (JArr ?qs [])"
    by (simp_all add: array_def)
  have 4: "\<forall>v\<in>set ?ms. is_record v" by code_simp
  have 5: "\<forall>v\<in>set ?qs. is_record v" by code_simp
  have l: "length ?ms = 2" "length ?qs = 2" by code_simp+
  have a: "get_prop (spec_rehydrated ex_runtime ?z 0 (?ms ! 0)) ''blobUrl'' = Inr (Some (JStr ''blob:''))"
    by code_simp
  have b: "spec_rehydrated ex_runtime ?z 1 (?ms ! 1) = ?ms ! 1" by code_simp
  have c: "get_prop (spec_rehydrated ex_runtime ?z 3 (?qs ! 1)) ''blobUrl'' =
      Inr (Some (JStr ''blob:xxx''))"
    by code_simp
  from unzip_preserves_records[OF 1 2 3 4 5] obtain ms' qs' where
    u: "unzipCourse ex_runtime ?z =
        Inr (JObj (AList.update ''mascot'' (array qs') (AList.update ''media'' (array ms') ?ps)))"
    and lm: "length ms' = length ?ms" and lq: "length qs' = length ?qs"
    and m: "\<forall>i<length ?ms. ms' ! i = spec_rehydrated ex_runtime ?z i (?ms ! i)"
    and q: "\<forall>j<length ?qs. qs' ! j = spec_rehydrated ex_runtime ?z (length ?ms + j) (?qs ! j)"
    by (elim exE conjE)
  from m[rule_format, of 0] l have m0: "ms' ! 0 = spec_rehydrated ex_runtime ?z 0 (?ms ! 0)" by simp
  from m[rule_format, of 1] l have m1: "ms' ! 1 = spec_rehydrated ex_runtime ?z 1 (?ms ! 1)" by simp
  from q[rule_format, of 1] l have q1: "qs' ! 1 = spec_rehydrated ex_runtime ?z 3 (?qs ! 1)" by simp
  have "unzipCourse ex_runtime ?z =
        Inr (JObj (AList.update ''mascot'' (array qs') (AList.update ''media'' (array ms') ?ps)))
        \<and> length ms' = 2 \<and> length qs' = 2
        \<and> get_prop (ms' ! 0) ''blobUrl'' = Inr (Some (JStr ''blob:''))
        \<and> ms' ! 1 = ?ms ! 1
        \<and> get_prop (qs' ! 1) ''blobUrl'' = Inr (Some (JStr ''blob:xxx''))"
    using u lm lq l a b c unfolding m0 m1 q1 by (intro conjI) simp_all
  then have "\<exists>ms' qs'. unzipCourse ex_runtime ?z =
        Inr (JObj (AList.update ''mascot'' (array qs') (AList.update ''media'' (array ms') ?ps)))
        \<and> length ms' = 2 \<and> length qs' = 2
        \<and> get_prop (ms' ! 0) ''blobUrl'' = Inr (Some (JStr ''blob:''))
        \<and> ms' ! 1 = ?ms ! 1
        \<and> get_prop (qs' ! 1) ''blobUrl'' = Inr (Some (JStr ''blob:xxx''))"
    by (intro exI)
  moreover have "map record_path ?ms = [Some ''media/foto.png'', Some ''media/som.mp3'']"
    by code_simp
  ultimately show ?thesis using 0 by (intro conjI)
qed

end
